theory Spec2Isabelle
  imports Main
begin

section \<open>The DOM as the navigation script sees it\<close>

text \<open>
  The script \<^verbatim>\<open>src/js/navbar.js\<close> reads and writes one attribute
  (\<^verbatim>\<open>aria-expanded\<close>) and three classes (\<^verbatim>\<open>is-active\<close>,
  \<^verbatim>\<open>menu-open\<close>, \<^verbatim>\<open>is-open\<close>) of a handful of elements. An element is
  its attribute map and its class list; \<^verbatim>\<open>getAttribute\<close> of a missing attribute is
  \<^verbatim>\<open>null\<close>, here \<open>None\<close>.
\<close>

record element =
  attributes :: "string \<rightharpoonup> string"
  classList :: "string set"

definition getAttribute :: "element \<Rightarrow> string \<Rightarrow> string option" where
  "getAttribute e n = attributes e n"

definition setAttribute :: "string \<Rightarrow> string \<Rightarrow> element \<Rightarrow> element" where
  "setAttribute n v e = e\<lparr>attributes := (attributes e)(n \<mapsto> v)\<rparr>"

text \<open>\<^verbatim>\<open>setAttribute(name, !isOpen)\<close> stores the boolean converted to a string.\<close>

definition js_string_of_bool :: "bool \<Rightarrow> string" where
  "js_string_of_bool b = (if b then ''true'' else ''false'')"

definition classList_contains :: "string \<Rightarrow> element \<Rightarrow> bool" where
  "classList_contains c e = (c \<in> classList e)"

definition classList_add :: "string \<Rightarrow> element \<Rightarrow> element" where
  "classList_add c e = e\<lparr>classList := insert c (classList e)\<rparr>"

definition classList_remove :: "string \<Rightarrow> element \<Rightarrow> element" where
  "classList_remove c e = e\<lparr>classList := classList e - {c}\<rparr>"

definition classList_toggle :: "string \<Rightarrow> element \<Rightarrow> element" where
  "classList_toggle c e =
     (if c \<in> classList e then classList_remove c e else classList_add c e)"

text \<open>
  A \<^verbatim>\<open>.nav-dropdown\<close> element together with what
  \<^verbatim>\<open>dropdown.querySelector('a[aria-haspopup]')\<close> returns for it: its toggle link, or
  \<^verbatim>\<open>null\<close>. The script never adds or removes elements, so the answer of that
  query is the same at every call. Dropdowns are taken not to nest and not to share a
  toggle link, and the menu toggle, the menu, the body and the dropdowns are taken to be
  different elements.
\<close>

record dropdown =
  dd_element :: element
  dd_toggle :: "element option"

text \<open>Which \<^verbatim>\<open>addEventListener\<close> calls of \<^verbatim>\<open>init\<close> have run.\<close>

record listeners =
  onMenuToggleClick :: bool
  onDropdowns :: bool
  onNavLinkClick :: bool
  onDocumentClick :: bool
  onWindowResize :: bool
  onDocumentKeydown :: bool

text \<open>
  The page and the closure variables of the module. \<open>menuToggle\<close>, \<open>navMenu\<close> and
  \<open>navDropdowns\<close> are the results of the three queries of lines 10 to 12 (\<open>None\<close> is
  \<^verbatim>\<open>null\<close>); \<open>isDesktop\<close> and \<open>resizeTimeout\<close> are the \<^verbatim>\<open>let\<close> variables of
  lines 19 and 20. \<open>innerWidth\<close> is \<^verbatim>\<open>window.innerWidth\<close>. \<open>rafCounter\<close> is the
  window's animation frame callback identifier and \<open>rafPending\<close> the handles of the
  callbacks this module has scheduled and the browser has neither run nor cancelled.
  \<open>defaultPrevented\<close> is the canceled flag of the event being dispatched.
\<close>

record world =
  menuToggle :: "element option"
  navMenu :: "element option"
  navDropdowns :: "dropdown list"
  body :: element
  isDesktop :: bool
  resizeTimeout :: "nat option"
  innerWidth :: int
  rafCounter :: nat
  rafPending :: "nat list"
  defaultPrevented :: bool
  registered :: listeners

text \<open>
  Reading a property of \<^verbatim>\<open>null\<close> throws a \<^verbatim>\<open>TypeError\<close>. A function that
  throws has already done the writes before the throw, so the error carries the world
  as it is at that moment.
\<close>

datatype js_error = TypeError

type_synonym completion = "(js_error \<times> world) + world"

definition final :: "completion \<Rightarrow> world" where
  "final c = (case c of Inl (e, w) \<Rightarrow> w | Inr w \<Rightarrow> w)"

definition thrown :: "completion \<Rightarrow> js_error option" where
  "thrown c = (case c of Inl (e, w) \<Rightarrow> Some e | Inr w \<Rightarrow> None)"

section \<open>The functions of the module\<close>

definition DESKTOP_BREAKPOINT :: int where
  "DESKTOP_BREAKPOINT = 1024"

definition updateDesktopState :: "world \<Rightarrow> world" where
  "updateDesktopState w = w\<lparr>isDesktop := (innerWidth w \<ge> DESKTOP_BREAKPOINT)\<rparr>"

text \<open>The body of the \<^verbatim>\<open>forEach\<close> of \<^verbatim>\<open>closeAllDropdowns\<close> (lines 60 to 64).\<close>

definition closeDropdown :: "dropdown \<Rightarrow> dropdown" where
  "closeDropdown d =
     d\<lparr>dd_element := classList_remove ''is-open'' (dd_element d),
       dd_toggle :=
         (case dd_toggle d of
            None \<Rightarrow> None
          | Some t \<Rightarrow> Some (setAttribute ''aria-expanded'' ''false'' t))\<rparr>"

definition closeAllDropdowns :: "world \<Rightarrow> world" where
  "closeAllDropdowns w = w\<lparr>navDropdowns := map closeDropdown (navDropdowns w)\<rparr>"

definition toggleMobileMenu :: "world \<Rightarrow> completion" where
  "toggleMobileMenu w =
     (case menuToggle w of
        None \<Rightarrow> Inl (TypeError, w)
      | Some mt \<Rightarrow>
          let isOpen = (getAttribute mt ''aria-expanded'' = Some ''true'');
              w1 = w\<lparr>menuToggle :=
                      Some (setAttribute ''aria-expanded'' (js_string_of_bool (\<not> isOpen)) mt)\<rparr>
          in (case navMenu w1 of
                None \<Rightarrow> Inl (TypeError, w1)
              | Some nm \<Rightarrow>
                  let w2 = w1\<lparr>navMenu := Some (classList_toggle ''is-active'' nm)\<rparr>;
                      w3 = w2\<lparr>body := classList_toggle ''menu-open'' (body w2)\<rparr>
                  in Inr (if isOpen then closeAllDropdowns w3 else w3)))"

definition closeMobileMenu :: "world \<Rightarrow> completion" where
  "closeMobileMenu w =
     (case menuToggle w of
        None \<Rightarrow> Inl (TypeError, w)
      | Some mt \<Rightarrow>
          let w1 = w\<lparr>menuToggle := Some (setAttribute ''aria-expanded'' ''false'' mt)\<rparr>
          in (case navMenu w1 of
                None \<Rightarrow> Inl (TypeError, w1)
              | Some nm \<Rightarrow>
                  let w2 = w1\<lparr>navMenu := Some (classList_remove ''is-active'' nm)\<rparr>;
                      w3 = w2\<lparr>body := classList_remove ''menu-open'' (body w2)\<rparr>
                  in Inr (closeAllDropdowns w3)))"

text \<open>
  The first \<^verbatim>\<open>forEach\<close> of \<^verbatim>\<open>toggleDropdown\<close> (lines 83 to 91): every dropdown
  that is not the one acted on is closed. The dropdown acted on is the \<open>i\<close>-th of
  \<open>navDropdowns\<close>, and \<^verbatim>\<open>d !== dropdown\<close> compares positions.
\<close>

definition closeOthers :: "nat \<Rightarrow> dropdown list \<Rightarrow> dropdown list" where
  "closeOthers i ds =
     map (\<lambda>(j, d). if j \<noteq> i then closeDropdown d else d) (zip [0..<length ds] ds)"

definition toggleDropdown :: "nat \<Rightarrow> world \<Rightarrow> completion" where
  "toggleDropdown i w =
     (let dropdownToggle = dd_toggle (navDropdowns w ! i) in
      if \<not> isDesktop w then
        let w1 = w\<lparr>defaultPrevented := True\<rparr>;
            isOpen = classList_contains ''is-open'' (dd_element (navDropdowns w1 ! i));
            w2 = w1\<lparr>navDropdowns := closeOthers i (navDropdowns w1)\<rparr>;
            d = navDropdowns w2 ! i;
            w3 = w2\<lparr>navDropdowns :=
                      (navDropdowns w2)
                        [i := d\<lparr>dd_element := classList_toggle ''is-open'' (dd_element d)\<rparr>]\<rparr>
        in (case dropdownToggle of
              None \<Rightarrow> Inl (TypeError, w3)
            | Some t \<Rightarrow>
                Inr (w3\<lparr>navDropdowns :=
                          (navDropdowns w3)
                            [i := (navDropdowns w3 ! i)
                               \<lparr>dd_toggle :=
                                  Some (setAttribute ''aria-expanded''
                                          (js_string_of_bool (\<not> isOpen)) t)\<rparr>]\<rparr>))
      else Inr w)"

text \<open>
  Where \<^verbatim>\<open>event.target\<close> lies. \<open>onPath\<close> lists the elements that contain the
  target and on which \<open>init\<close> may have put a listener, in the order the event reaches
  them, the innermost first: the toggle link of a dropdown, one of the menu's plain
  links (\<^verbatim>\<open>a:not([aria-haspopup])\<close>), the menu toggle. \<open>inNavMenu\<close> is the answer of
  \<^verbatim>\<open>navMenu.contains(event.target)\<close>. The menu toggle contains the target exactly
  when it is on the path.
\<close>

datatype listening = OnDropdownLink nat | OnPlainLink | OnMenuToggle

record target =
  onPath :: "listening list"
  inNavMenu :: bool

definition inMenuToggle :: "target \<Rightarrow> bool" where
  "inMenuToggle t = (OnMenuToggle \<in> set (onPath t))"

definition handleClickOutside :: "target \<Rightarrow> world \<Rightarrow> completion" where
  "handleClickOutside t w =
     (case navMenu w of
        None \<Rightarrow> Inl (TypeError, w)
      | Some nm \<Rightarrow>
          let isMenuOpen = classList_contains ''is-active'' nm;
              clickedInsideMenu = inNavMenu t
          in (case menuToggle w of
                None \<Rightarrow> Inl (TypeError, w)
              | Some mt \<Rightarrow>
                  let clickedOnToggle = inMenuToggle t
                  in if isMenuOpen \<and> \<not> clickedInsideMenu \<and> \<not> clickedOnToggle
                     then closeMobileMenu w else Inr w))"

text \<open>
  \<^verbatim>\<open>requestAnimationFrame\<close> increments the window's callback identifier, stores the
  callback under the new identifier and returns it; \<^verbatim>\<open>cancelAnimationFrame\<close> removes
  the callback stored under a handle. \<^verbatim>\<open>if (resizeTimeout)\<close> is false for
  \<^verbatim>\<open>null\<close> and for the number 0.
\<close>

definition requestAnimationFrame :: "world \<Rightarrow> nat \<times> world" where
  "requestAnimationFrame w =
     (let h = Suc (rafCounter w)
      in (h, w\<lparr>rafCounter := h, rafPending := rafPending w @ [h]\<rparr>))"

definition cancelAnimationFrame :: "nat \<Rightarrow> world \<Rightarrow> world" where
  "cancelAnimationFrame h w = w\<lparr>rafPending := removeAll h (rafPending w)\<rparr>"

definition truthy :: "nat option \<Rightarrow> bool" where
  "truthy v = (case v of None \<Rightarrow> False | Some n \<Rightarrow> n \<noteq> 0)"

definition handleResize :: "world \<Rightarrow> world" where
  "handleResize w =
     (let w1 = (if truthy (resizeTimeout w)
                then cancelAnimationFrame (the (resizeTimeout w)) w else w);
          (h, w2) = requestAnimationFrame w1
      in w2\<lparr>resizeTimeout := Some h\<rparr>)"

text \<open>The callback handed to \<^verbatim>\<open>requestAnimationFrame\<close> (lines 123 to 128).\<close>

definition resizeCallback :: "world \<Rightarrow> completion" where
  "resizeCallback w =
     (let w1 = updateDesktopState w
      in if isDesktop w1 then closeMobileMenu w1 else Inr w1)"

definition handleEscapeKey :: "string \<Rightarrow> world \<Rightarrow> completion" where
  "handleEscapeKey key w = (if key = ''Escape'' then closeMobileMenu w else Inr w)"

text \<open>
  \<^verbatim>\<open>handleDropdownKeyboard\<close>: the first argument is the result of
  \<^verbatim>\<open>event.target.closest('.nav-dropdown')\<close>. The Escape branch (lines 156 to 163)
  does to the one dropdown what \<open>closeDropdown\<close> does, and moves the focus, which is
  not part of the model.
\<close>

definition handleDropdownKeyboard :: "nat option \<Rightarrow> string \<Rightarrow> world \<Rightarrow> completion" where
  "handleDropdownKeyboard closest key w =
     (case closest of
        None \<Rightarrow> Inr w
      | Some i \<Rightarrow>
          (case (if key = ''Enter'' \<or> key = '' ''
                 then (if \<not> isDesktop w then toggleDropdown i w else Inr w)
                 else Inr w) of
             Inl err \<Rightarrow> Inl err
           | Inr w1 \<Rightarrow>
               if key = ''Escape''
               then Inr (w1\<lparr>navDropdowns :=
                              (navDropdowns w1)[i := closeDropdown (navDropdowns w1 ! i)]\<rparr>)
               else Inr w1))"

text \<open>The three anonymous listeners of \<^verbatim>\<open>init\<close>.\<close>

definition dropdownMouseenter :: "nat \<Rightarrow> world \<Rightarrow> world" where
  "dropdownMouseenter i w =
     (if isDesktop w then
        let d = navDropdowns w ! i
        in w\<lparr>navDropdowns :=
               (navDropdowns w)
                 [i := d\<lparr>dd_element := classList_add ''is-open'' (dd_element d),
                          dd_toggle :=
                            (case dd_toggle d of
                               None \<Rightarrow> None
                             | Some t \<Rightarrow> Some (setAttribute ''aria-expanded'' ''true'' t))\<rparr>]\<rparr>
      else w)"

definition dropdownMouseleave :: "nat \<Rightarrow> world \<Rightarrow> world" where
  "dropdownMouseleave i w =
     (if isDesktop w then
        let d = navDropdowns w ! i
        in w\<lparr>navDropdowns :=
               (navDropdowns w)
                 [i := d\<lparr>dd_element := classList_remove ''is-open'' (dd_element d),
                          dd_toggle :=
                            (case dd_toggle d of
                               None \<Rightarrow> None
                             | Some t \<Rightarrow> Some (setAttribute ''aria-expanded'' ''false'' t))\<rparr>]\<rparr>
      else w)"

definition navLinkClick :: "world \<Rightarrow> completion" where
  "navLinkClick w = (if \<not> isDesktop w then closeMobileMenu w else Inr w)"

text \<open>
  \<^verbatim>\<open>init\<close>: the listener on the menu toggle is guarded (line 171), the listeners
  on the dropdowns are added in a loop that cannot throw, and line 212 calls
  \<^verbatim>\<open>navMenu.querySelectorAll\<close> with no guard; the three listeners on the document
  and the window come after it.
\<close>

definition init :: "world \<Rightarrow> completion" where
  "init w =
     (let w1 = (if menuToggle w \<noteq> None
                then w\<lparr>registered := (registered w)\<lparr>onMenuToggleClick := True\<rparr>\<rparr> else w);
          w2 = w1\<lparr>registered := (registered w1)\<lparr>onDropdowns := True\<rparr>\<rparr>
      in (case navMenu w2 of
            None \<Rightarrow> Inl (TypeError, w2)
          | Some nm \<Rightarrow>
              Inr (w2\<lparr>registered := (registered w2)
                        \<lparr>onNavLinkClick := True, onDocumentClick := True,
                         onWindowResize := True, onDocumentKeydown := True\<rparr>\<rparr>)))"

text \<open>
  Loading the module on a page: the queries of lines 10 to 12 have given \<open>mt\<close>, \<open>nm\<close>
  and \<open>dds\<close>, the window is \<open>width\<close> pixels wide, and \<open>init\<close> runs (at once, or on
  \<^verbatim>\<open>DOMContentLoaded\<close>).
\<close>

definition no_listeners :: listeners where
  "no_listeners =
     \<lparr>onMenuToggleClick = False, onDropdowns = False, onNavLinkClick = False,
      onDocumentClick = False, onWindowResize = False, onDocumentKeydown = False\<rparr>"

definition module_scope ::
  "element option \<Rightarrow> element option \<Rightarrow> dropdown list \<Rightarrow> element \<Rightarrow> int \<Rightarrow> nat \<Rightarrow> world" where
  "module_scope mt nm dds b width n =
     \<lparr>menuToggle = mt, navMenu = nm, navDropdowns = dds, body = b,
      isDesktop = (width \<ge> DESKTOP_BREAKPOINT), resizeTimeout = None,
      innerWidth = width, rafCounter = n, rafPending = [],
      defaultPrevented = False, registered = no_listeners\<rparr>"

definition load ::
  "element option \<Rightarrow> element option \<Rightarrow> dropdown list \<Rightarrow> element \<Rightarrow> int \<Rightarrow> nat \<Rightarrow> completion" where
  "load mt nm dds b width n = init (module_scope mt nm dds b width n)"

section \<open>Events\<close>

text \<open>
  The browser dispatches an event to the listeners on its path, the innermost first
  and the document last. A listener that throws is reported and the dispatch goes on,
  so the next listener sees the world the throwing one left. The listeners on a
  dropdown's toggle link exist when the loop of \<^verbatim>\<open>init\<close> found the link
  (line 179).
\<close>

datatype event =
    Click target
  | Keydown target string
  | Mouseenter nat
  | Mouseleave nat
  | Resize int
  | AnimationFrame

definition runListener :: "bool \<Rightarrow> (world \<Rightarrow> completion) \<Rightarrow> world \<Rightarrow> world" where
  "runListener on f w = (if on then final (f w) else w)"

definition hasToggleListeners :: "nat \<Rightarrow> world \<Rightarrow> bool" where
  "hasToggleListeners i w =
     (onDropdowns (registered w) \<and> i < length (navDropdowns w) \<and>
      dd_toggle (navDropdowns w ! i) \<noteq> None)"

text \<open>
  The listener a click finds on an element of its path, and the one a keydown finds.
  A keydown on the toggle link of dropdown \<open>i\<close> has a target inside that dropdown, so
  \<^verbatim>\<open>event.target.closest('.nav-dropdown')\<close> is dropdown \<open>i\<close>.
\<close>

fun clickListener :: "listening \<Rightarrow> world \<Rightarrow> world" where
  "clickListener (OnDropdownLink i) w =
     runListener (hasToggleListeners i w) (toggleDropdown i) w"
| "clickListener OnPlainLink w =
     runListener (onNavLinkClick (registered w)) navLinkClick w"
| "clickListener OnMenuToggle w =
     runListener (onMenuToggleClick (registered w)) toggleMobileMenu w"

fun keydownListener :: "string \<Rightarrow> listening \<Rightarrow> world \<Rightarrow> world" where
  "keydownListener key (OnDropdownLink i) w =
     runListener (hasToggleListeners i w) (handleDropdownKeyboard (Some i) key) w"
| "keydownListener key OnPlainLink w = w"
| "keydownListener key OnMenuToggle w = w"

fun step :: "event \<Rightarrow> world \<Rightarrow> world" where
  "step (Click t) w =
     (let w0 = w\<lparr>defaultPrevented := False\<rparr>;
          w1 = foldl (\<lambda>w' n. clickListener n w') w0 (onPath t)
      in runListener (onDocumentClick (registered w1)) (handleClickOutside t) w1)"
| "step (Keydown t key) w =
     (let w0 = w\<lparr>defaultPrevented := False\<rparr>;
          w1 = foldl (\<lambda>w' n. keydownListener key n w') w0 (onPath t)
      in runListener (onDocumentKeydown (registered w1)) (handleEscapeKey key) w1)"
| "step (Mouseenter i) w =
     (if onDropdowns (registered w) \<and> i < length (navDropdowns w)
      then dropdownMouseenter i w else w)"
| "step (Mouseleave i) w =
     (if onDropdowns (registered w) \<and> i < length (navDropdowns w)
      then dropdownMouseleave i w else w)"
| "step (Resize n) w =
     (let w0 = w\<lparr>innerWidth := n\<rparr>
      in if onWindowResize (registered w0) then handleResize w0 else w0)"
| "step AnimationFrame w =
     (let callbacks = rafPending w;
          w0 = w\<lparr>rafPending := []\<rparr>
      in foldl (\<lambda>w' h. final (resizeCallback w')) w0 callbacks)"

definition run :: "event list \<Rightarrow> world \<Rightarrow> world" where
  "run es w = foldl (\<lambda>w' e. step e w') w es"

section \<open>Observations on a page\<close>

definition toggle_expanded :: "world \<Rightarrow> string option" where
  "toggle_expanded w =
     (case menuToggle w of None \<Rightarrow> None | Some mt \<Rightarrow> getAttribute mt ''aria-expanded'')"

definition menu_expanded :: "world \<Rightarrow> bool" where
  "menu_expanded w = (toggle_expanded w = Some ''true'')"

definition menu_active :: "world \<Rightarrow> bool" where
  "menu_active w =
     (case navMenu w of None \<Rightarrow> False | Some nm \<Rightarrow> classList_contains ''is-active'' nm)"

definition body_open :: "world \<Rightarrow> bool" where
  "body_open w = classList_contains ''menu-open'' (body w)"

definition menu_synced :: "world \<Rightarrow> bool" where
  "menu_synced w = (menu_expanded w = menu_active w \<and> menu_active w = body_open w)"

definition dropdown_open :: "dropdown \<Rightarrow> bool" where
  "dropdown_open d = classList_contains ''is-open'' (dd_element d)"

definition toggle_aria :: "dropdown \<Rightarrow> string option" where
  "toggle_aria d =
     (case dd_toggle d of None \<Rightarrow> None | Some t \<Rightarrow> getAttribute t ''aria-expanded'')"

text \<open>
  A closed dropdown: no \<^verbatim>\<open>is-open\<close> class, and \<^verbatim>\<open>aria-expanded="false"\<close> on its
  toggle link when it has one.
\<close>

definition dropdown_closed :: "dropdown \<Rightarrow> bool" where
  "dropdown_closed d =
     (\<not> dropdown_open d \<and>
      (case dd_toggle d of
         None \<Rightarrow> True
       | Some t \<Rightarrow> getAttribute t ''aria-expanded'' = Some ''false''))"

text \<open>
  \<open>closed_from d d'\<close>: \<open>d'\<close> is the dropdown \<open>d\<close> after closing. The element has the
  classes it had but \<^verbatim>\<open>is-open\<close> and the attributes it had; it has a toggle link
  exactly when \<open>d\<close> has one, and the link is the one of \<open>d\<close> with
  \<^verbatim>\<open>aria-expanded="false"\<close>.
\<close>

definition closed_from :: "dropdown \<Rightarrow> dropdown \<Rightarrow> bool" where
  "closed_from d d' =
     (classList (dd_element d') = classList (dd_element d) - {''is-open''} \<and>
      attributes (dd_element d') = attributes (dd_element d) \<and>
      (case dd_toggle d of
         None \<Rightarrow> dd_toggle d' = None
       | Some t \<Rightarrow>
           (case dd_toggle d' of
              None \<Rightarrow> False
            | Some t' \<Rightarrow>
                classList t' = classList t \<and>
                attributes t' = (attributes t)(''aria-expanded'' \<mapsto> ''false''))))"

definition open_count :: "world \<Rightarrow> nat" where
  "open_count w = length (filter dropdown_open (navDropdowns w))"

text \<open>
  Every call of \<^verbatim>\<open>querySelector\<close>, \<^verbatim>\<open>querySelectorAll\<close> and \<^verbatim>\<open>closest\<close> in
  the file, with its line and the selector string it is given.
\<close>

datatype dom_method = QuerySelector | QuerySelectorAll | Closest

definition dom_queries :: "(nat \<times> dom_method \<times> string) list" where
  "dom_queries =
     [(10, QuerySelector, ''.menu-toggle''),
      (11, QuerySelector, ''.nav-menu''),
      (12, QuerySelectorAll, ''.nav-dropdown''),
      (61, QuerySelector, ''a[aria-haspopup]''),
      (74, QuerySelector, ''a[aria-haspopup]''),
      (86, QuerySelector, ''a[aria-haspopup]''),
      (146, Closest, ''.nav-dropdown''),
      (158, QuerySelector, ''a[aria-haspopup]''),
      (177, QuerySelector, ''a[aria-haspopup]''),
      (193, QuerySelector, ''a[aria-haspopup]''),
      (203, QuerySelector, ''a[aria-haspopup]''),
      (212, QuerySelectorAll, ''a:not([aria-haspopup])'')]"

definition selectors_used :: "string set" where
  "selectors_used = set (map (\<lambda>(line, method, selector). selector) dom_queries)"

definition selector_contract :: "string set" where
  "selector_contract = {''.menu-toggle'', ''.nav-menu'', ''.nav-dropdown'', ''a[aria-haspopup]''}"

section \<open>Example pages\<close>

definition el :: "(string \<times> string) list \<Rightarrow> string list \<Rightarrow> element" where
  "el as cs = \<lparr>attributes = map_of as, classList = set cs\<rparr>"

definition closed_toggle :: element where
  "closed_toggle = el [(''aria-expanded'', ''false'')] [''menu-toggle'']"

definition open_toggle :: element where
  "open_toggle = el [(''aria-expanded'', ''true'')] [''menu-toggle'']"

definition closed_menu :: element where
  "closed_menu = el [] [''nav-menu'']"

definition open_menu :: element where
  "open_menu = el [] [''nav-menu'', ''is-active'']"

definition plain_body :: element where
  "plain_body = el [] []"

definition open_body :: element where
  "open_body = el [] [''menu-open'']"

definition closed_dropdown :: dropdown where
  "closed_dropdown =
     \<lparr>dd_element = el [] [''nav-dropdown''],
      dd_toggle = Some (el [(''aria-haspopup'', ''true''), (''aria-expanded'', ''false'')] [])\<rparr>"

definition open_dropdown :: dropdown where
  "open_dropdown =
     \<lparr>dd_element = el [] [''nav-dropdown'', ''is-open''],
      dd_toggle = Some (el [(''aria-haspopup'', ''true''), (''aria-expanded'', ''true'')] [])\<rparr>"

text \<open>A phone-sized page with the menu closed and one of two dropdowns open.\<close>

definition mobile_closed :: world where
  "mobile_closed =
     final (load (Some closed_toggle) (Some closed_menu) [open_dropdown, closed_dropdown]
              plain_body 375 0)"

text \<open>The same page with the menu open.\<close>

definition mobile_open :: world where
  "mobile_open =
     final (load (Some open_toggle) (Some open_menu) [open_dropdown, closed_dropdown]
              open_body 375 0)"

text \<open>The same page on a desktop-sized window.\<close>

definition desktop_closed :: world where
  "desktop_closed =
     final (load (Some closed_toggle) (Some closed_menu) [open_dropdown, closed_dropdown]
              plain_body 1280 0)"

text \<open>
  Markup in which the toggle says closed and the menu carries \<^verbatim>\<open>is-active\<close>, and
  markup in which the toggle says open and the menu does not.
\<close>

definition mobile_toggle_closed_menu_active :: world where
  "mobile_toggle_closed_menu_active =
     final (load (Some closed_toggle) (Some open_menu) [] plain_body 375 0)"

definition mobile_toggle_open_menu_inactive :: world where
  "mobile_toggle_open_menu_inactive =
     final (load (Some open_toggle) (Some closed_menu) [] plain_body 375 0)"

text \<open>A page with a menu toggle and no \<^verbatim>\<open>.nav-menu\<close> element.\<close>

definition page_without_menu :: world where
  "page_without_menu =
     module_scope (Some closed_toggle) None [closed_dropdown] plain_body 375 0"

text \<open>A page with a \<^verbatim>\<open>.nav-menu\<close> element and no menu toggle.\<close>

definition page_without_toggle :: world where
  "page_without_toggle =
     module_scope None (Some open_menu) [closed_dropdown] open_body 375 0"

text \<open>Two click targets: one outside every element the module knows, one on the menu toggle.\<close>

definition nowhere :: target where
  "nowhere = \<lparr>onPath = [], inNavMenu = False\<rparr>"

definition on_menu_toggle :: target where
  "on_menu_toggle = \<lparr>onPath = [OnMenuToggle], inNavMenu = False\<rparr>"

text \<open>A tap on the toggle link of the second dropdown, inside the menu.\<close>

definition on_second_dropdown_toggle :: target where
  "on_second_dropdown_toggle = \<lparr>onPath = [OnDropdownLink 1], inNavMenu = True\<rparr>"

text \<open>
  A dropdown whose class says open and whose link says closed, and a phone-sized page
  with that dropdown.
\<close>

definition unsynced_dropdown :: dropdown where
  "unsynced_dropdown =
     \<lparr>dd_element = el [] [''nav-dropdown'', ''is-open''],
      dd_toggle = Some (el [(''aria-haspopup'', ''true''), (''aria-expanded'', ''false'')] [])\<rparr>"

definition mobile_unsynced_dropdown :: world where
  "mobile_unsynced_dropdown =
     final (load (Some closed_toggle) (Some closed_menu) [unsynced_dropdown] plain_body 375 0)"

section \<open>Invariants\<close>

text \<open>
  \<open>same_menu w w'\<close>: the three elements that encode the menu's state are the same in
  both worlds. \<open>same_frames w w'\<close>: so is the bookkeeping of the animation frames.
\<close>

definition same_menu :: "world \<Rightarrow> world \<Rightarrow> bool" where
  "same_menu w w' =
     (menuToggle w' = menuToggle w \<and> navMenu w' = navMenu w \<and> body w' = body w)"

definition same_frames :: "world \<Rightarrow> world \<Rightarrow> bool" where
  "same_frames w w' =
     (rafPending w' = rafPending w \<and> resizeTimeout w' = resizeTimeout w \<and>
      rafCounter w' = rafCounter w)"

text \<open>
  \<open>same_shape w w'\<close>: the same mode, the same listeners, and as many dropdowns, each
  with a toggle link in one world exactly when it has one in the other.
\<close>

definition same_shape :: "world \<Rightarrow> world \<Rightarrow> bool" where
  "same_shape w w' =
     (isDesktop w' = isDesktop w \<and> registered w' = registered w \<and>
      map (\<lambda>d. dd_toggle d = None) (navDropdowns w') =
        map (\<lambda>d. dd_toggle d = None) (navDropdowns w))"

text \<open>The menu exists and its three encodings agree.\<close>

definition menu_inv :: "world \<Rightarrow> bool" where
  "menu_inv w = (navMenu w \<noteq> None \<and> menu_synced w)"

text \<open>
  No callback is pending, or exactly one is and \<open>resizeTimeout\<close> holds its handle, a
  number the test of line 119 takes as true.
\<close>

definition raf_inv :: "world \<Rightarrow> bool" where
  "raf_inv w =
     (rafPending w = [] \<or>
      (truthy (resizeTimeout w) \<and> rafPending w = [the (resizeTimeout w)]))"

section \<open>Reading and writing elements\<close>

lemmas element_defs =
  getAttribute_def setAttribute_def js_string_of_bool_def classList_contains_def
  classList_add_def classList_remove_def classList_toggle_def

lemmas observer_defs =
  toggle_expanded_def menu_expanded_def menu_active_def body_open_def
  dropdown_open_def toggle_aria_def dropdown_closed_def

lemmas example_defs =
  el_def closed_toggle_def open_toggle_def closed_menu_def open_menu_def plain_body_def
  open_body_def closed_dropdown_def open_dropdown_def load_def module_scope_def
  no_listeners_def init_def final_def DESKTOP_BREAKPOINT_def

lemma closeDropdown_closed: "dropdown_closed (closeDropdown d)"
  by (simp add: closeDropdown_def observer_defs element_defs split: option.split)

lemma closeAllDropdowns_closed: "list_all dropdown_closed (navDropdowns (closeAllDropdowns w))"
  by (simp add: closeAllDropdowns_def list_all_iff closeDropdown_closed)

lemma closeDropdown_closed_from: "closed_from d (closeDropdown d)"
  by (simp add: closed_from_def closeDropdown_def element_defs split: option.split)

lemma map_closeDropdown_closed_from: "list_all2 closed_from ds (map closeDropdown ds)"
  by (simp add: list_all2_map2 list_all2_same closeDropdown_closed_from)

lemma closeAllDropdowns_closed_from:
  "list_all2 closed_from (navDropdowns w) (navDropdowns (closeAllDropdowns w))"
  by (simp add: closeAllDropdowns_def map_closeDropdown_closed_from)

section \<open>The breakpoint\<close>

text \<open>
  C6. The cached desktop flag is the comparison of the window's width with the
  breakpoint 1024: when the module's variables are initialised, after \<open>init\<close> has run,
  and after every run of \<open>updateDesktopState\<close>.
\<close>

theorem C6_isDesktop_is_width_at_least_1024:
  "isDesktop (module_scope mt nm dds b width n) = (width \<ge> 1024) \<and>
   isDesktop (final (load mt nm dds b width n)) = (width \<ge> 1024) \<and>
   isDesktop (updateDesktopState w) = (innerWidth w \<ge> 1024)"
  by (simp add: module_scope_def load_def init_def final_def updateDesktopState_def
        DESKTOP_BREAKPOINT_def Let_def split: option.split)

theorem C6_witness:
  "isDesktop (module_scope None None [] plain_body 1024 0) \<and>
   \<not> isDesktop (updateDesktopState (desktop_closed\<lparr>innerWidth := 1023\<rparr>))"
  using C6_isDesktop_is_width_at_least_1024 [of None None "[]" plain_body 1024 0
      "desktop_closed\<lparr>innerWidth := 1023\<rparr>"]
  by simp

section \<open>The selectors\<close>

text \<open>
  C7, as the code has it. The selector strings the module passes to
  \<^verbatim>\<open>querySelector\<close>, \<^verbatim>\<open>querySelectorAll\<close> and \<^verbatim>\<open>closest\<close> are the four of
  the interface contract and one more, \<^verbatim>\<open>a:not([aria-haspopup])\<close>, which \<open>init\<close>
  passes to \<^verbatim>\<open>navMenu.querySelectorAll\<close> on line 212.
\<close>

theorem C7_selectors_are_contract_and_plain_links:
  "selectors_used = insert ''a:not([aria-haspopup])'' selector_contract"
  by (auto simp add: selectors_used_def selector_contract_def dom_queries_def)

text \<open>
  C7 as the specification states it fails: a selector outside the contract is used.
\<close>

theorem C7_counterexample:
  "''a:not([aria-haspopup])'' \<in> selectors_used \<and>
   ''a:not([aria-haspopup])'' \<notin> selector_contract"
  by (simp add: selectors_used_def selector_contract_def dom_queries_def)

section \<open>Facts about the example pages\<close>

lemma desktop_closed_facts:
  "isDesktop desktop_closed"
  "navDropdowns desktop_closed = [open_dropdown, closed_dropdown]"
  by (simp_all add: desktop_closed_def load_def init_def module_scope_def final_def Let_def
        DESKTOP_BREAKPOINT_def closed_menu_def el_def)

lemma mobile_closed_facts:
  "\<not> isDesktop mobile_closed"
  "navDropdowns mobile_closed = [open_dropdown, closed_dropdown]"
  "menuToggle mobile_closed = Some closed_toggle"
  "navMenu mobile_closed = Some closed_menu"
  "body mobile_closed = plain_body"
  by (simp_all add: mobile_closed_def load_def init_def module_scope_def final_def Let_def
        DESKTOP_BREAKPOINT_def)

lemma mobile_closed_listeners:
  "onDropdowns (registered mobile_closed)"
  by (simp add: mobile_closed_def load_def init_def module_scope_def final_def Let_def
        closed_menu_def el_def no_listeners_def)

lemma mobile_open_facts:
  "\<not> isDesktop mobile_open"
  "navDropdowns mobile_open = [open_dropdown, closed_dropdown]"
  "menuToggle mobile_open = Some open_toggle"
  "navMenu mobile_open = Some open_menu"
  "body mobile_open = open_body"
  by (simp_all add: mobile_open_def load_def init_def module_scope_def final_def Let_def
        DESKTOP_BREAKPOINT_def)

lemma example_toggles:
  "getAttribute closed_toggle ''aria-expanded'' = Some ''false''"
  "getAttribute open_toggle ''aria-expanded'' = Some ''true''"
  by (simp_all add: closed_toggle_def open_toggle_def el_def getAttribute_def)

lemma example_menus:
  "\<not> menu_active mobile_closed" "\<not> body_open mobile_closed"
  "menu_active mobile_open" "body_open mobile_open"
  by (simp_all add: menu_active_def body_open_def mobile_closed_facts mobile_open_facts
        closed_menu_def open_menu_def plain_body_def open_body_def el_def
        classList_contains_def)

section \<open>Closing the menu\<close>

lemma closeMobileMenu_ok:
  assumes "menuToggle w = Some mt" "navMenu w = Some nm"
  shows "closeMobileMenu w =
     Inr (closeAllDropdowns
            (w\<lparr>menuToggle := Some (setAttribute ''aria-expanded'' ''false'' mt),
               navMenu := Some (classList_remove ''is-active'' nm),
               body := classList_remove ''menu-open'' (body w)\<rparr>))"
  using assms by (simp add: closeMobileMenu_def Let_def)

text \<open>
  C10. When the menu toggle and the menu exist, an Escape keydown that reaches the
  document's listener closes the menu whatever its state and whatever \<open>isDesktop\<close>
  is: the handler returns, \<^verbatim>\<open>aria-expanded\<close> of the toggle is \<^verbatim>\<open>false\<close>,
  \<^verbatim>\<open>is-active\<close> and \<^verbatim>\<open>menu-open\<close> are gone, and every dropdown is closed.
  The dropdowns after are the dropdowns before, one for one, each without
  \<^verbatim>\<open>is-open\<close> and with its own toggle link, if it has one, reading \<^verbatim>\<open>false\<close>.
\<close>

theorem C10_escape_closes_menu:
  assumes "menuToggle w = Some mt" and "navMenu w = Some nm"
  shows "thrown (handleEscapeKey ''Escape'' w) = None \<and>
         toggle_expanded (final (handleEscapeKey ''Escape'' w)) = Some ''false'' \<and>
         \<not> menu_active (final (handleEscapeKey ''Escape'' w)) \<and>
         \<not> body_open (final (handleEscapeKey ''Escape'' w)) \<and>
         list_all dropdown_closed (navDropdowns (final (handleEscapeKey ''Escape'' w))) \<and>
         list_all2 closed_from (navDropdowns w)
           (navDropdowns (final (handleEscapeKey ''Escape'' w)))"
proof -
  let ?w' = "w\<lparr>menuToggle := Some (setAttribute ''aria-expanded'' ''false'' mt),
               navMenu := Some (classList_remove ''is-active'' nm),
               body := classList_remove ''menu-open'' (body w)\<rparr>"
  have run: "handleEscapeKey ''Escape'' w = Inr (closeAllDropdowns ?w')"
    using assms by (simp add: handleEscapeKey_def closeMobileMenu_ok)
  have "list_all dropdown_closed (navDropdowns (closeAllDropdowns ?w'))"
    by (rule closeAllDropdowns_closed)
  moreover have "list_all2 closed_from (navDropdowns w) (navDropdowns (closeAllDropdowns ?w'))"
    using closeAllDropdowns_closed_from [of ?w'] by simp
  moreover have "toggle_expanded (closeAllDropdowns ?w') = Some ''false''"
    "\<not> menu_active (closeAllDropdowns ?w')" "\<not> body_open (closeAllDropdowns ?w')"
    by (simp_all add: closeAllDropdowns_def toggle_expanded_def menu_active_def
          body_open_def element_defs)
  ultimately show ?thesis
    unfolding run by (simp add: thrown_def final_def)
qed

theorem C10_witness:
  "menu_active mobile_open \<and>
   thrown (handleEscapeKey ''Escape'' mobile_open) = None \<and>
   toggle_expanded (final (handleEscapeKey ''Escape'' mobile_open)) = Some ''false'' \<and>
   \<not> menu_active (final (handleEscapeKey ''Escape'' mobile_open)) \<and>
   \<not> body_open (final (handleEscapeKey ''Escape'' mobile_open)) \<and>
   list_all dropdown_closed (navDropdowns (final (handleEscapeKey ''Escape'' mobile_open))) \<and>
   list_all2 closed_from [open_dropdown, closed_dropdown]
     (navDropdowns (final (handleEscapeKey ''Escape'' mobile_open))) \<and>
   length (navDropdowns (final (handleEscapeKey ''Escape'' mobile_open))) = 2"
proof -
  have "list_all2 closed_from [open_dropdown, closed_dropdown]
          (navDropdowns (final (handleEscapeKey ''Escape'' mobile_open)))"
    using C10_escape_closes_menu [of mobile_open open_toggle open_menu]
    by (simp add: mobile_open_facts)
  moreover from this
  have "length (navDropdowns (final (handleEscapeKey ''Escape'' mobile_open))) = 2"
    by (auto dest: list_all2_lengthD)
  ultimately show ?thesis
    using C10_escape_closes_menu [of mobile_open open_toggle open_menu]
    by (simp add: mobile_open_facts example_menus)
qed

section \<open>A click on the menu toggle\<close>

text \<open>
  C2, as the code has it. When the menu toggle and the menu exist and the toggle's
  \<^verbatim>\<open>aria-expanded\<close> is not \<^verbatim>\<open>true\<close>, a click on the toggle sets it to
  \<^verbatim>\<open>true\<close>, flips \<^verbatim>\<open>is-active\<close> on the menu and \<^verbatim>\<open>menu-open\<close> on the body
  (so each is added when it was absent), and leaves the dropdowns as they are.
\<close>

theorem C2_toggle_click_when_closed:
  assumes "menuToggle w = Some mt" and "navMenu w = Some nm"
    and "getAttribute mt ''aria-expanded'' \<noteq> Some ''true''"
  shows "thrown (toggleMobileMenu w) = None \<and>
         toggle_expanded (final (toggleMobileMenu w)) = Some ''true'' \<and>
         menu_active (final (toggleMobileMenu w)) = (\<not> menu_active w) \<and>
         body_open (final (toggleMobileMenu w)) = (\<not> body_open w) \<and>
         navDropdowns (final (toggleMobileMenu w)) = navDropdowns w"
  using assms
  by (simp add: toggleMobileMenu_def Let_def thrown_def final_def
        toggle_expanded_def menu_active_def body_open_def element_defs)

theorem C2_witness:
  "toggle_expanded (final (toggleMobileMenu mobile_closed)) = Some ''true'' \<and>
   menu_active (final (toggleMobileMenu mobile_closed)) \<and>
   body_open (final (toggleMobileMenu mobile_closed)) \<and>
   navDropdowns (final (toggleMobileMenu mobile_closed)) = [open_dropdown, closed_dropdown]"
  using C2_toggle_click_when_closed [of mobile_closed closed_toggle closed_menu]
  by (simp add: mobile_closed_facts example_toggles example_menus)

text \<open>
  C2 as the specification states it fails where the markup has the toggle closed and
  the menu already \<^verbatim>\<open>is-active\<close>: the click removes the class.
\<close>

theorem C2_counterexample:
  "menuToggle mobile_toggle_closed_menu_active \<noteq> None \<and>
   navMenu mobile_toggle_closed_menu_active \<noteq> None \<and>
   toggle_expanded mobile_toggle_closed_menu_active = Some ''false'' \<and>
   menu_active mobile_toggle_closed_menu_active \<and>
   \<not> menu_active (final (toggleMobileMenu mobile_toggle_closed_menu_active))"
  by (simp add: mobile_toggle_closed_menu_active_def example_defs Let_def
        toggleMobileMenu_def toggle_expanded_def menu_active_def element_defs)

text \<open>
  C3, as the code has it. When the menu toggle and the menu exist and the toggle's
  \<^verbatim>\<open>aria-expanded\<close> is \<^verbatim>\<open>true\<close>, a click on the toggle sets it to \<^verbatim>\<open>false\<close>,
  flips \<^verbatim>\<open>is-active\<close> on the menu and \<^verbatim>\<open>menu-open\<close> on the body (so each is
  removed when it was present), and closes every dropdown: the dropdowns after are the
  dropdowns before, one for one, each without \<^verbatim>\<open>is-open\<close> and with its own toggle
  link, if it has one, reading \<^verbatim>\<open>false\<close>.
\<close>

theorem C3_toggle_click_when_open:
  assumes "menuToggle w = Some mt" and "navMenu w = Some nm"
    and "getAttribute mt ''aria-expanded'' = Some ''true''"
  shows "thrown (toggleMobileMenu w) = None \<and>
         toggle_expanded (final (toggleMobileMenu w)) = Some ''false'' \<and>
         menu_active (final (toggleMobileMenu w)) = (\<not> menu_active w) \<and>
         body_open (final (toggleMobileMenu w)) = (\<not> body_open w) \<and>
         list_all dropdown_closed (navDropdowns (final (toggleMobileMenu w))) \<and>
         list_all2 closed_from (navDropdowns w) (navDropdowns (final (toggleMobileMenu w)))"
proof -
  have "navDropdowns (final (toggleMobileMenu w)) = map closeDropdown (navDropdowns w)"
    using assms
    by (simp add: toggleMobileMenu_def Let_def final_def closeAllDropdowns_def)
  then have "list_all2 closed_from (navDropdowns w) (navDropdowns (final (toggleMobileMenu w)))"
    by (simp add: map_closeDropdown_closed_from)
  moreover have "thrown (toggleMobileMenu w) = None \<and>
         toggle_expanded (final (toggleMobileMenu w)) = Some ''false'' \<and>
         menu_active (final (toggleMobileMenu w)) = (\<not> menu_active w) \<and>
         body_open (final (toggleMobileMenu w)) = (\<not> body_open w) \<and>
         list_all dropdown_closed (navDropdowns (final (toggleMobileMenu w)))"
    using assms
    by (simp add: toggleMobileMenu_def Let_def thrown_def final_def
          toggle_expanded_def menu_active_def body_open_def element_defs
          closeAllDropdowns_def list_all_iff closeDropdown_closed)
  ultimately show ?thesis by simp
qed

theorem C3_witness:
  "toggle_expanded (final (toggleMobileMenu mobile_open)) = Some ''false'' \<and>
   \<not> menu_active (final (toggleMobileMenu mobile_open)) \<and>
   \<not> body_open (final (toggleMobileMenu mobile_open)) \<and>
   list_all dropdown_closed (navDropdowns (final (toggleMobileMenu mobile_open))) \<and>
   list_all2 closed_from [open_dropdown, closed_dropdown]
     (navDropdowns (final (toggleMobileMenu mobile_open))) \<and>
   length (navDropdowns (final (toggleMobileMenu mobile_open))) = 2"
proof -
  have "list_all2 closed_from [open_dropdown, closed_dropdown]
          (navDropdowns (final (toggleMobileMenu mobile_open)))"
    using C3_toggle_click_when_open [of mobile_open open_toggle open_menu]
    by (simp add: mobile_open_facts example_toggles)
  moreover from this
  have "length (navDropdowns (final (toggleMobileMenu mobile_open))) = 2"
    by (auto dest: list_all2_lengthD)
  ultimately show ?thesis
    using C3_toggle_click_when_open [of mobile_open open_toggle open_menu]
    by (simp add: mobile_open_facts example_toggles example_menus)
qed

text \<open>
  C3 as the specification states it fails where the markup has the toggle open and
  neither \<^verbatim>\<open>is-active\<close> on the menu nor \<^verbatim>\<open>menu-open\<close> on the body: the click
  adds both.
\<close>

theorem C3_counterexample:
  "menuToggle mobile_toggle_open_menu_inactive \<noteq> None \<and>
   navMenu mobile_toggle_open_menu_inactive \<noteq> None \<and>
   toggle_expanded mobile_toggle_open_menu_inactive = Some ''true'' \<and>
   menu_active (final (toggleMobileMenu mobile_toggle_open_menu_inactive)) \<and>
   body_open (final (toggleMobileMenu mobile_toggle_open_menu_inactive))"
  by (simp add: mobile_toggle_open_menu_inactive_def example_defs Let_def
        toggleMobileMenu_def toggle_expanded_def menu_active_def body_open_def element_defs
        closeAllDropdowns_def)

section \<open>Dropdowns\<close>

lemma length_closeOthers: "length (closeOthers i ds) = length ds"
  by (simp add: closeOthers_def)

lemma nth_closeOthers:
  "j < length ds \<Longrightarrow>
   closeOthers i ds ! j = (if j \<noteq> i then closeDropdown (ds ! j) else ds ! j)"
  by (simp add: closeOthers_def)

lemma filter_at_most_one:
  "(\<And>j. j < length xs \<Longrightarrow> j \<noteq> i \<Longrightarrow> \<not> P (xs ! j)) \<Longrightarrow> length (filter P xs) \<le> 1"
proof (induction xs arbitrary: i)
  case Nil
  then show ?case by simp
next
  case (Cons x xs)
  show ?case
  proof (cases i)
    case 0
    have "\<not> P y" if "y \<in> set xs" for y
    proof -
      from that obtain k where "k < length xs" "xs ! k = y"
        by (auto simp: in_set_conv_nth)
      with Cons.prems [of "Suc k"] 0 show ?thesis by simp
    qed
    then have "filter P xs = []" by (simp add: filter_empty_conv)
    then show ?thesis by simp
  next
    case (Suc k)
    have "\<not> P x" using Cons.prems [of 0] Suc by simp
    moreover have "length (filter P xs) \<le> 1"
    proof (rule Cons.IH [of k])
      fix j assume "j < length xs" "j \<noteq> k"
      with Cons.prems [of "Suc j"] Suc show "\<not> P (xs ! j)" by simp
    qed
    ultimately show ?thesis by simp
  qed
qed

text \<open>
  The dropdowns after a tap on the toggle link of dropdown \<open>i\<close>, whether the last line
  of \<open>toggleDropdown\<close> throws or not.
\<close>

lemma toggleDropdown_mobile_length:
  "\<not> isDesktop w \<Longrightarrow> length (navDropdowns (final (toggleDropdown i w))) = length (navDropdowns w)"
  by (simp add: toggleDropdown_def Let_def final_def length_closeOthers split: option.split)

lemma toggleDropdown_mobile_others:
  assumes "\<not> isDesktop w" "j < length (navDropdowns w)" "j \<noteq> i"
  shows "navDropdowns (final (toggleDropdown i w)) ! j = closeDropdown (navDropdowns w ! j)"
  using assms
  by (simp add: toggleDropdown_def Let_def final_def length_closeOthers nth_closeOthers
        split: option.split)

lemma toggleDropdown_desktop: "isDesktop w \<Longrightarrow> toggleDropdown i w = Inr w"
  by (simp add: toggleDropdown_def)

lemma toggleDropdown_mobile_self:
  assumes "\<not> isDesktop w" "i < length (navDropdowns w)"
    and "dd_toggle (navDropdowns w ! i) = Some t"
  shows "thrown (toggleDropdown i w) = None"
    and "defaultPrevented (final (toggleDropdown i w))"
    and "dropdown_open (navDropdowns (final (toggleDropdown i w)) ! i)
           = (\<not> dropdown_open (navDropdowns w ! i))"
    and "toggle_aria (navDropdowns (final (toggleDropdown i w)) ! i)
           = Some (js_string_of_bool (\<not> dropdown_open (navDropdowns w ! i)))"
  using assms
  by (simp_all add: toggleDropdown_def Let_def final_def thrown_def length_closeOthers
        nth_closeOthers dropdown_open_def toggle_aria_def element_defs)

text \<open>
  C4, as the code has it. For a dropdown that has its toggle link: on desktop,
  \<^verbatim>\<open>mouseenter\<close> adds \<^verbatim>\<open>is-open\<close> and sets the link's \<^verbatim>\<open>aria-expanded\<close> to
  \<^verbatim>\<open>true\<close>, \<^verbatim>\<open>mouseleave\<close> removes the class and sets the attribute to
  \<^verbatim>\<open>false\<close>, both leave every other dropdown as it is, and a click on the link
  changes nothing and does not prevent the default; on mobile, a click on the link
  prevents the default, flips \<^verbatim>\<open>is-open\<close> of that dropdown and sets the link's
  \<^verbatim>\<open>aria-expanded\<close> to the dropdown's new state, \<^verbatim>\<open>true\<close> when the class was
  added and \<^verbatim>\<open>false\<close> when it was removed, and the page has as many dropdowns as
  before.
\<close>

theorem C4_dropdown_hover_and_tap:
  assumes "i < length (navDropdowns w)" and "dd_toggle (navDropdowns w ! i) = Some t"
  shows "(isDesktop w \<longrightarrow>
            dropdown_open (navDropdowns (dropdownMouseenter i w) ! i) \<and>
            toggle_aria (navDropdowns (dropdownMouseenter i w) ! i) = Some ''true'' \<and>
            navDropdowns (dropdownMouseenter i w) =
              (navDropdowns w)[i := navDropdowns (dropdownMouseenter i w) ! i] \<and>
            \<not> dropdown_open (navDropdowns (dropdownMouseleave i w) ! i) \<and>
            toggle_aria (navDropdowns (dropdownMouseleave i w) ! i) = Some ''false'' \<and>
            navDropdowns (dropdownMouseleave i w) =
              (navDropdowns w)[i := navDropdowns (dropdownMouseleave i w) ! i] \<and>
            toggleDropdown i w = Inr w) \<and>
         (\<not> isDesktop w \<longrightarrow>
            thrown (toggleDropdown i w) = None \<and>
            defaultPrevented (final (toggleDropdown i w)) \<and>
            dropdown_open (navDropdowns (final (toggleDropdown i w)) ! i)
              = (\<not> dropdown_open (navDropdowns w ! i)) \<and>
            toggle_aria (navDropdowns (final (toggleDropdown i w)) ! i)
              = Some (js_string_of_bool (\<not> dropdown_open (navDropdowns w ! i))) \<and>
            length (navDropdowns (final (toggleDropdown i w))) = length (navDropdowns w))"
proof (intro conjI impI)
  assume desktop: "isDesktop w"
  show "dropdown_open (navDropdowns (dropdownMouseenter i w) ! i)"
    and "toggle_aria (navDropdowns (dropdownMouseenter i w) ! i) = Some ''true''"
    and "navDropdowns (dropdownMouseenter i w) =
           (navDropdowns w)[i := navDropdowns (dropdownMouseenter i w) ! i]"
    using assms desktop
    by (simp_all add: dropdownMouseenter_def Let_def dropdown_open_def toggle_aria_def
          element_defs)
  show "\<not> dropdown_open (navDropdowns (dropdownMouseleave i w) ! i)"
    and "toggle_aria (navDropdowns (dropdownMouseleave i w) ! i) = Some ''false''"
    and "navDropdowns (dropdownMouseleave i w) =
           (navDropdowns w)[i := navDropdowns (dropdownMouseleave i w) ! i]"
    using assms desktop
    by (simp_all add: dropdownMouseleave_def Let_def dropdown_open_def toggle_aria_def
          element_defs)
  show "toggleDropdown i w = Inr w"
    using desktop by (rule toggleDropdown_desktop)
next
  assume mobile: "\<not> isDesktop w"
  from toggleDropdown_mobile_self [OF mobile assms]
  show "thrown (toggleDropdown i w) = None"
    and "defaultPrevented (final (toggleDropdown i w))"
    and "dropdown_open (navDropdowns (final (toggleDropdown i w)) ! i)
           = (\<not> dropdown_open (navDropdowns w ! i))"
    and "toggle_aria (navDropdowns (final (toggleDropdown i w)) ! i)
           = Some (js_string_of_bool (\<not> dropdown_open (navDropdowns w ! i)))"
    by simp_all
  show "length (navDropdowns (final (toggleDropdown i w))) = length (navDropdowns w)"
    using mobile by (rule toggleDropdown_mobile_length)
qed

theorem C4_witness:
  "dropdown_open (navDropdowns (dropdownMouseenter 1 desktop_closed) ! 1) \<and>
   toggle_aria (navDropdowns (dropdownMouseenter 1 desktop_closed) ! 1) = Some ''true'' \<and>
   toggleDropdown 1 desktop_closed = Inr desktop_closed \<and>
   defaultPrevented (final (toggleDropdown 1 mobile_closed)) \<and>
   dropdown_open (navDropdowns (final (toggleDropdown 1 mobile_closed)) ! 1) \<and>
   toggle_aria (navDropdowns (final (toggleDropdown 1 mobile_closed)) ! 1) = Some ''true'' \<and>
   \<not> dropdown_open (navDropdowns (final (toggleDropdown 0 mobile_closed)) ! 0) \<and>
   toggle_aria (navDropdowns (final (toggleDropdown 0 mobile_closed)) ! 0) = Some ''false''"
proof -
  have t: "dd_toggle closed_dropdown =
             Some (el [(''aria-haspopup'', ''true''), (''aria-expanded'', ''false'')] [])"
    "dd_toggle open_dropdown =
             Some (el [(''aria-haspopup'', ''true''), (''aria-expanded'', ''true'')] [])"
    by (simp_all add: closed_dropdown_def open_dropdown_def)
  have o: "\<not> dropdown_open closed_dropdown" "dropdown_open open_dropdown"
    by (simp_all add: dropdown_open_def closed_dropdown_def open_dropdown_def el_def
          classList_contains_def)
  have d: "(1::nat) < length (navDropdowns desktop_closed)"
    "dd_toggle (navDropdowns desktop_closed ! 1) =
       Some (el [(''aria-haspopup'', ''true''), (''aria-expanded'', ''false'')] [])"
    by (simp_all add: desktop_closed_facts t)
  have m1: "(1::nat) < length (navDropdowns mobile_closed)"
    "dd_toggle (navDropdowns mobile_closed ! 1) =
       Some (el [(''aria-haspopup'', ''true''), (''aria-expanded'', ''false'')] [])"
    by (simp_all add: mobile_closed_facts t)
  have m0: "(0::nat) < length (navDropdowns mobile_closed)"
    "dd_toggle (navDropdowns mobile_closed ! 0) =
       Some (el [(''aria-haspopup'', ''true''), (''aria-expanded'', ''true'')] [])"
    by (simp_all add: mobile_closed_facts t)
  show ?thesis
    using C4_dropdown_hover_and_tap [OF d] C4_dropdown_hover_and_tap [OF m1]
      C4_dropdown_hover_and_tap [OF m0]
    by (simp add: desktop_closed_facts mobile_closed_facts o js_string_of_bool_def)
qed

text \<open>
  C4 as the specification states it fails on mobile for a dropdown whose class says
  open and whose link says closed: the tap removes \<^verbatim>\<open>is-open\<close> and the link's
  \<^verbatim>\<open>aria-expanded\<close> is \<^verbatim>\<open>false\<close> before and after, so the attribute is not
  toggled.
\<close>

theorem C4_counterexample:
  "\<not> isDesktop mobile_unsynced_dropdown \<and>
   dropdown_open (navDropdowns mobile_unsynced_dropdown ! 0) \<and>
   toggle_aria (navDropdowns mobile_unsynced_dropdown ! 0) = Some ''false'' \<and>
   thrown (toggleDropdown 0 mobile_unsynced_dropdown) = None \<and>
   \<not> dropdown_open (navDropdowns (final (toggleDropdown 0 mobile_unsynced_dropdown)) ! 0) \<and>
   toggle_aria (navDropdowns (final (toggleDropdown 0 mobile_unsynced_dropdown)) ! 0)
     = Some ''false''"
proof -
  have page: "\<not> isDesktop mobile_unsynced_dropdown"
    "navDropdowns mobile_unsynced_dropdown = [unsynced_dropdown]"
    by (simp_all add: mobile_unsynced_dropdown_def load_def init_def module_scope_def
          final_def Let_def DESKTOP_BREAKPOINT_def)
  have before: "dropdown_open unsynced_dropdown"
    "toggle_aria unsynced_dropdown = Some ''false''"
    by (simp_all add: unsynced_dropdown_def dropdown_open_def toggle_aria_def el_def
          classList_contains_def getAttribute_def)
  have link: "dd_toggle (navDropdowns mobile_unsynced_dropdown ! 0) =
                Some (el [(''aria-haspopup'', ''true''), (''aria-expanded'', ''false'')] [])"
    by (simp add: page unsynced_dropdown_def)
  have here: "0 < length (navDropdowns mobile_unsynced_dropdown)"
    by (simp add: page)
  show ?thesis
    using toggleDropdown_mobile_self [OF page(1) here link] before
    by (simp add: page js_string_of_bool_def)
qed

lemma toggleDropdown_mobile_open_count:
  assumes "\<not> isDesktop w"
  shows "open_count (final (toggleDropdown i w)) \<le> 1"
proof -
  let ?ds = "navDropdowns (final (toggleDropdown i w))"
  have "length (filter dropdown_open ?ds) \<le> 1"
  proof (rule filter_at_most_one [of _ i])
    fix j assume "j < length ?ds" "j \<noteq> i"
    then have "?ds ! j = closeDropdown (navDropdowns w ! j)"
      using assms by (simp add: toggleDropdown_mobile_length toggleDropdown_mobile_others)
    then show "\<not> dropdown_open (?ds ! j)"
      using closeDropdown_closed [of "navDropdowns w ! j"] by (simp add: dropdown_closed_def)
  qed
  then show ?thesis by (simp add: open_count_def)
qed

lemma handleDropdownKeyboard_activate:
  assumes "\<not> isDesktop w" and "key = ''Enter'' \<or> key = '' ''"
  shows "handleDropdownKeyboard (Some i) key w = toggleDropdown i w"
proof -
  have "key \<noteq> ''Escape''" using assms(2) by auto
  then show ?thesis
    using assms by (auto simp add: handleDropdownKeyboard_def split: sum.split)
qed

section \<open>What a handler leaves alone\<close>

lemma same_menu_inv: "same_menu w w' \<Longrightarrow> menu_inv w' = menu_inv w"
  by (simp add: same_menu_def menu_inv_def menu_synced_def menu_expanded_def
        toggle_expanded_def menu_active_def body_open_def)

lemma same_frames_inv: "same_frames w w' \<Longrightarrow> raf_inv w' = raf_inv w"
  by (simp add: same_frames_def raf_inv_def)

lemma same_frames_trans: "same_frames w w' \<Longrightarrow> same_frames w' w'' \<Longrightarrow> same_frames w w''"
  by (simp add: same_frames_def)

lemma closeMobileMenu_frames: "same_frames w (final (closeMobileMenu w))"
  by (simp add: same_frames_def closeMobileMenu_def closeAllDropdowns_def Let_def final_def
        split: option.split)

lemma toggleMobileMenu_frames: "same_frames w (final (toggleMobileMenu w))"
  by (simp add: same_frames_def toggleMobileMenu_def closeAllDropdowns_def Let_def final_def
        split: option.split)

lemma toggleDropdown_frames:
  "same_frames w (final (toggleDropdown i w))" "same_menu w (final (toggleDropdown i w))"
  by (simp_all add: same_frames_def same_menu_def toggleDropdown_def Let_def final_def
        split: option.split)

lemma handleDropdownKeyboard_frames:
  "same_frames w (final (handleDropdownKeyboard c key w))"
  "same_menu w (final (handleDropdownKeyboard c key w))"
proof -
  have t: "same_frames w (final (toggleDropdown i w)) \<and> same_menu w (final (toggleDropdown i w))" for i
    by (simp add: toggleDropdown_frames)
  have "same_frames w (final (handleDropdownKeyboard c key w)) \<and>
        same_menu w (final (handleDropdownKeyboard c key w))"
  proof (cases c)
    case None
    then show ?thesis
      by (simp add: handleDropdownKeyboard_def final_def same_frames_def same_menu_def)
  next
    case (Some i)
    show ?thesis
    proof (cases "toggleDropdown i w")
      case (Inl err)
      with t [of i] Some show ?thesis
        by (auto simp add: handleDropdownKeyboard_def final_def same_frames_def same_menu_def)
    next
      case (Inr w1)
      with t [of i] Some show ?thesis
        by (auto simp add: handleDropdownKeyboard_def final_def same_frames_def same_menu_def)
    qed
  qed
  then show "same_frames w (final (handleDropdownKeyboard c key w))"
    and "same_menu w (final (handleDropdownKeyboard c key w))" by simp_all
qed

lemma mouse_frames:
  "same_frames w (dropdownMouseenter i w)" "same_menu w (dropdownMouseenter i w)"
  "same_frames w (dropdownMouseleave i w)" "same_menu w (dropdownMouseleave i w)"
  by (simp_all add: same_frames_def same_menu_def dropdownMouseenter_def
        dropdownMouseleave_def Let_def)

lemma closeMobileMenu_menu_inv:
  "menu_inv w \<Longrightarrow> menu_inv (final (closeMobileMenu w))"
  by (auto simp add: menu_inv_def menu_synced_def menu_expanded_def toggle_expanded_def
        menu_active_def body_open_def closeMobileMenu_def closeAllDropdowns_def Let_def
        final_def element_defs split: option.splits)

lemma toggleMobileMenu_menu_inv:
  "menu_inv w \<Longrightarrow> menu_inv (final (toggleMobileMenu w))"
  by (auto simp add: menu_inv_def menu_synced_def menu_expanded_def toggle_expanded_def
        menu_active_def body_open_def toggleMobileMenu_def closeAllDropdowns_def Let_def
        final_def element_defs split: option.splits)

lemma handleClickOutside_cases:
  "final (handleClickOutside t w) = w \<or>
   final (handleClickOutside t w) = final (closeMobileMenu w)"
  by (simp add: handleClickOutside_def Let_def final_def split: option.split)

lemma handleEscapeKey_cases:
  "final (handleEscapeKey key w) = w \<or>
   final (handleEscapeKey key w) = final (closeMobileMenu w)"
  by (simp add: handleEscapeKey_def final_def)

lemma navLinkClick_cases:
  "final (navLinkClick w) = w \<or> final (navLinkClick w) = final (closeMobileMenu w)"
  by (simp add: navLinkClick_def final_def)

lemma resizeCallback_cases:
  "final (resizeCallback w) = updateDesktopState w \<or>
   final (resizeCallback w) = final (closeMobileMenu (updateDesktopState w))"
  by (simp add: resizeCallback_def Let_def final_def)

lemma updateDesktopState_frames:
  "same_frames w (updateDesktopState w)" "same_menu w (updateDesktopState w)"
  by (simp_all add: same_frames_def same_menu_def updateDesktopState_def)

lemma resizeCallback_frames: "same_frames w (final (resizeCallback w))"
  using resizeCallback_cases [of w] updateDesktopState_frames(1) [of w]
    closeMobileMenu_frames [of "updateDesktopState w"]
  by (auto intro: same_frames_trans)

lemma resizeCallback_menu_inv: "menu_inv w \<Longrightarrow> menu_inv (final (resizeCallback w))"
  using resizeCallback_cases [of w] same_menu_inv [OF updateDesktopState_frames(2), of w]
    closeMobileMenu_menu_inv [of "updateDesktopState w"]
  by auto

lemma handleResize_menu: "same_menu w (handleResize w)"
  by (simp add: same_menu_def handleResize_def requestAnimationFrame_def
        cancelAnimationFrame_def Let_def)

lemma handleResize_pending:
  "raf_inv w \<Longrightarrow>
   rafPending (handleResize w) = [Suc (rafCounter w)] \<and>
   resizeTimeout (handleResize w) = Some (Suc (rafCounter w))"
  by (auto simp add: raf_inv_def handleResize_def requestAnimationFrame_def
        cancelAnimationFrame_def Let_def)

lemma handleResize_raf_inv: "raf_inv w \<Longrightarrow> raf_inv (handleResize w)"
  using handleResize_pending [of w] by (simp add: raf_inv_def truthy_def)

lemma closeAllDropdowns_frames:
  "same_frames w (closeAllDropdowns w)" "same_menu w (closeAllDropdowns w)"
  by (simp_all add: same_frames_def same_menu_def closeAllDropdowns_def)

lemma init_frames: "same_frames w (final (init w))" "same_menu w (final (init w))"
  by (simp_all add: same_frames_def same_menu_def init_def Let_def final_def
        split: option.split)

section \<open>The menu's three encodings\<close>

lemma handlers_menu_inv:
  assumes "menu_inv w"
  shows "menu_inv (final (toggleDropdown i w))"
    and "menu_inv (final (navLinkClick w))"
    and "menu_inv (final (handleClickOutside t w))"
    and "menu_inv (final (handleEscapeKey key w))"
    and "menu_inv (final (handleDropdownKeyboard c key w))"
    and "menu_inv (dropdownMouseenter i w)"
    and "menu_inv (dropdownMouseleave i w)"
    and "menu_inv (handleResize w)"
proof -
  note close = closeMobileMenu_menu_inv [OF assms]
  show "menu_inv (final (toggleDropdown i w))"
    using assms same_menu_inv [OF toggleDropdown_frames(2)] by simp
  show "menu_inv (final (navLinkClick w))"
    using assms close navLinkClick_cases [of w] by auto
  show "menu_inv (final (handleClickOutside t w))"
    using assms close handleClickOutside_cases [of t w] by auto
  show "menu_inv (final (handleEscapeKey key w))"
    using assms close handleEscapeKey_cases [of key w] by auto
  show "menu_inv (final (handleDropdownKeyboard c key w))"
    using assms same_menu_inv [OF handleDropdownKeyboard_frames(2)] by simp
  show "menu_inv (dropdownMouseenter i w)"
    using assms same_menu_inv [OF mouse_frames(2)] by simp
  show "menu_inv (dropdownMouseleave i w)"
    using assms same_menu_inv [OF mouse_frames(4)] by simp
  show "menu_inv (handleResize w)"
    using assms same_menu_inv [OF handleResize_menu] by simp
qed

lemma runListener_menu_inv:
  assumes "menu_inv w" and "menu_inv (final (f w))"
  shows "menu_inv (runListener on f w)"
  using assms by (simp add: runListener_def)

lemma callbacks_menu_inv:
  "menu_inv w \<Longrightarrow> menu_inv (foldl (\<lambda>w' h. final (resizeCallback w')) w hs)"
  by (induction hs arbitrary: w) (simp_all add: resizeCallback_menu_inv)

lemma clickListener_menu_inv: "menu_inv w \<Longrightarrow> menu_inv (clickListener n w)"
  by (cases n) (simp_all add: runListener_menu_inv handlers_menu_inv toggleMobileMenu_menu_inv)

lemma keydownListener_menu_inv: "menu_inv w \<Longrightarrow> menu_inv (keydownListener key n w)"
  by (cases n) (simp_all add: runListener_menu_inv handlers_menu_inv)

lemma click_path_menu_inv:
  "menu_inv w \<Longrightarrow> menu_inv (foldl (\<lambda>w' n. clickListener n w') w ns)"
  by (induction ns arbitrary: w) (simp_all add: clickListener_menu_inv)

lemma keydown_path_menu_inv:
  "menu_inv w \<Longrightarrow> menu_inv (foldl (\<lambda>w' n. keydownListener key n w') w ns)"
  by (induction ns arbitrary: w) (simp_all add: keydownListener_menu_inv)

lemma step_menu_inv:
  assumes inv: "menu_inv w"
  shows "menu_inv (step e w)"
proof (cases e)
  case (Click t)
  have "menu_inv (w\<lparr>defaultPrevented := False\<rparr>)"
    using inv same_menu_inv [of w "w\<lparr>defaultPrevented := False\<rparr>"] by (simp add: same_menu_def)
  then have "menu_inv (foldl (\<lambda>w' n. clickListener n w') (w\<lparr>defaultPrevented := False\<rparr>) (onPath t))"
    by (rule click_path_menu_inv)
  then show ?thesis
    by (simp add: Click Let_def runListener_menu_inv handlers_menu_inv)
next
  case (Keydown t key)
  have "menu_inv (w\<lparr>defaultPrevented := False\<rparr>)"
    using inv same_menu_inv [of w "w\<lparr>defaultPrevented := False\<rparr>"] by (simp add: same_menu_def)
  then have "menu_inv (foldl (\<lambda>w' n. keydownListener key n w')
                    (w\<lparr>defaultPrevented := False\<rparr>) (onPath t))"
    by (rule keydown_path_menu_inv)
  then show ?thesis
    by (simp add: Keydown Let_def runListener_menu_inv handlers_menu_inv)
next
  case (Mouseenter i)
  with inv show ?thesis by (simp add: handlers_menu_inv)
next
  case (Mouseleave i)
  with inv show ?thesis by (simp add: handlers_menu_inv)
next
  case (Resize n)
  have "menu_inv (w\<lparr>innerWidth := n\<rparr>)"
    using inv same_menu_inv [of w "w\<lparr>innerWidth := n\<rparr>"] by (simp add: same_menu_def)
  then show ?thesis by (simp add: Resize Let_def handlers_menu_inv)
next
  case AnimationFrame
  have "menu_inv (w\<lparr>rafPending := []\<rparr>)"
    using inv same_menu_inv [of w "w\<lparr>rafPending := []\<rparr>"] by (simp add: same_menu_def)
  then show ?thesis by (simp add: AnimationFrame Let_def callbacks_menu_inv)
qed

lemma run_menu_inv: "menu_inv w \<Longrightarrow> menu_inv (run es w)"
  unfolding run_def by (induction es arbitrary: w) (simp_all add: step_menu_inv)

lemma mobile_closed_synced: "menu_synced mobile_closed"
  by (simp add: menu_synced_def menu_expanded_def toggle_expanded_def example_menus
        mobile_closed_facts example_toggles)

text \<open>
  C8. On a page that has the \<^verbatim>\<open>.nav-menu\<close> element, if the toggle's
  \<^verbatim>\<open>aria-expanded\<close> is \<^verbatim>\<open>true\<close> exactly when the menu has \<^verbatim>\<open>is-active\<close>
  and exactly when the body has \<^verbatim>\<open>menu-open\<close>, then the same holds after every
  function and listener of the module, after every event, and after every sequence of
  events.
\<close>

theorem C8_menu_encodings_stay_synchronized:
  assumes "navMenu w \<noteq> None" and "menu_synced w"
  shows "menu_synced (updateDesktopState w) \<and>
         menu_synced (final (toggleMobileMenu w)) \<and>
         menu_synced (final (closeMobileMenu w)) \<and>
         menu_synced (closeAllDropdowns w) \<and>
         menu_synced (final (toggleDropdown i w)) \<and>
         menu_synced (final (handleClickOutside t w)) \<and>
         menu_synced (handleResize w) \<and>
         menu_synced (final (resizeCallback w)) \<and>
         menu_synced (final (handleEscapeKey key w)) \<and>
         menu_synced (final (handleDropdownKeyboard c key w)) \<and>
         menu_synced (dropdownMouseenter i w) \<and>
         menu_synced (dropdownMouseleave i w) \<and>
         menu_synced (final (navLinkClick w)) \<and>
         menu_synced (final (init w)) \<and>
         menu_synced (step e w) \<and>
         menu_synced (run es w)"
proof -
  have inv: "menu_inv w" using assms by (simp add: menu_inv_def)
  have "menu_inv (updateDesktopState w)"
    using inv same_menu_inv [OF updateDesktopState_frames(2), of w] by simp
  moreover have "menu_inv (closeAllDropdowns w)"
    using inv same_menu_inv [OF closeAllDropdowns_frames(2), of w] by simp
  moreover have "menu_inv (final (init w))"
    using inv same_menu_inv [OF init_frames(2), of w] by simp
  moreover note toggleMobileMenu_menu_inv [OF inv] closeMobileMenu_menu_inv [OF inv]
    resizeCallback_menu_inv [OF inv] step_menu_inv [OF inv, of e] run_menu_inv [OF inv, of es]
    handlers_menu_inv [OF inv]
  ultimately show ?thesis by (simp add: menu_inv_def)
qed

theorem C8_witness:
  "navMenu mobile_closed \<noteq> None \<and> menu_synced mobile_closed \<and>
   menu_synced (final (toggleMobileMenu mobile_closed)) \<and>
   menu_synced (final (handleEscapeKey ''Escape'' mobile_closed)) \<and>
   menu_synced (step (Click on_menu_toggle) mobile_closed) \<and>
   menu_synced (run [Click on_menu_toggle, Keydown nowhere ''Escape''] mobile_closed)"
  using C8_menu_encodings_stay_synchronized [of mobile_closed 0 nowhere "''Escape''" None
      "Click on_menu_toggle" "[Click on_menu_toggle, Keydown nowhere ''Escape'']"]
  by (simp add: mobile_closed_facts mobile_closed_synced)

section \<open>The debounced resize\<close>

lemma handlers_raf_inv:
  assumes "raf_inv w"
  shows "raf_inv (final (toggleDropdown i w))"
    and "raf_inv (final (navLinkClick w))"
    and "raf_inv (final (toggleMobileMenu w))"
    and "raf_inv (final (handleClickOutside t w))"
    and "raf_inv (final (handleEscapeKey key w))"
    and "raf_inv (final (handleDropdownKeyboard c key w))"
    and "raf_inv (dropdownMouseenter i w)"
    and "raf_inv (dropdownMouseleave i w)"
    and "raf_inv (final (resizeCallback w))"
proof -
  have close: "raf_inv (final (closeMobileMenu w))"
    using assms same_frames_inv [OF closeMobileMenu_frames] by simp
  show "raf_inv (final (toggleDropdown i w))"
    using assms same_frames_inv [OF toggleDropdown_frames(1)] by simp
  show "raf_inv (final (navLinkClick w))"
    using assms close navLinkClick_cases [of w] by auto
  show "raf_inv (final (toggleMobileMenu w))"
    using assms same_frames_inv [OF toggleMobileMenu_frames] by simp
  show "raf_inv (final (handleClickOutside t w))"
    using assms close handleClickOutside_cases [of t w] by auto
  show "raf_inv (final (handleEscapeKey key w))"
    using assms close handleEscapeKey_cases [of key w] by auto
  show "raf_inv (final (handleDropdownKeyboard c key w))"
    using assms same_frames_inv [OF handleDropdownKeyboard_frames(1)] by simp
  show "raf_inv (dropdownMouseenter i w)"
    using assms same_frames_inv [OF mouse_frames(1)] by simp
  show "raf_inv (dropdownMouseleave i w)"
    using assms same_frames_inv [OF mouse_frames(3)] by simp
  show "raf_inv (final (resizeCallback w))"
    using assms same_frames_inv [OF resizeCallback_frames] by simp
qed

lemma runListener_raf_inv:
  assumes "raf_inv w" and "raf_inv (final (f w))"
  shows "raf_inv (runListener on f w)"
  using assms by (simp add: runListener_def)

lemma callbacks_raf_inv:
  "raf_inv w \<Longrightarrow> raf_inv (foldl (\<lambda>w' h. final (resizeCallback w')) w hs)"
  by (induction hs arbitrary: w) (simp_all add: handlers_raf_inv)

lemma clickListener_raf_inv: "raf_inv w \<Longrightarrow> raf_inv (clickListener n w)"
  by (cases n) (simp_all add: runListener_raf_inv handlers_raf_inv)

lemma keydownListener_raf_inv: "raf_inv w \<Longrightarrow> raf_inv (keydownListener key n w)"
  by (cases n) (simp_all add: runListener_raf_inv handlers_raf_inv)

lemma click_path_raf_inv:
  "raf_inv w \<Longrightarrow> raf_inv (foldl (\<lambda>w' n. clickListener n w') w ns)"
  by (induction ns arbitrary: w) (simp_all add: clickListener_raf_inv)

lemma keydown_path_raf_inv:
  "raf_inv w \<Longrightarrow> raf_inv (foldl (\<lambda>w' n. keydownListener key n w') w ns)"
  by (induction ns arbitrary: w) (simp_all add: keydownListener_raf_inv)

lemma step_raf_inv:
  assumes inv: "raf_inv w"
  shows "raf_inv (step e w)"
proof (cases e)
  case (Click t)
  have "raf_inv (w\<lparr>defaultPrevented := False\<rparr>)"
    using inv by (simp add: raf_inv_def)
  then have "raf_inv (foldl (\<lambda>w' n. clickListener n w')
                        (w\<lparr>defaultPrevented := False\<rparr>) (onPath t))"
    by (rule click_path_raf_inv)
  then show ?thesis
    by (simp add: Click Let_def runListener_raf_inv handlers_raf_inv)
next
  case (Keydown t key)
  have "raf_inv (w\<lparr>defaultPrevented := False\<rparr>)"
    using inv by (simp add: raf_inv_def)
  then have "raf_inv (foldl (\<lambda>w' n. keydownListener key n w')
                        (w\<lparr>defaultPrevented := False\<rparr>) (onPath t))"
    by (rule keydown_path_raf_inv)
  then show ?thesis
    by (simp add: Keydown Let_def runListener_raf_inv handlers_raf_inv)
next
  case (Mouseenter i)
  with inv show ?thesis by (simp add: handlers_raf_inv)
next
  case (Mouseleave i)
  with inv show ?thesis by (simp add: handlers_raf_inv)
next
  case (Resize n)
  have "raf_inv (w\<lparr>innerWidth := n\<rparr>)"
    using inv by (simp add: raf_inv_def)
  then show ?thesis by (simp add: Resize Let_def handleResize_raf_inv)
next
  case AnimationFrame
  have "raf_inv (w\<lparr>rafPending := []\<rparr>)"
    by (simp add: raf_inv_def)
  then show ?thesis by (simp add: AnimationFrame Let_def callbacks_raf_inv)
qed

lemma run_raf_inv: "raf_inv w \<Longrightarrow> raf_inv (run es w)"
  unfolding run_def by (induction es arbitrary: w) (simp_all add: step_raf_inv)

lemma load_raf_inv: "raf_inv (final (load mt nm dds b width n))"
proof -
  have "raf_inv (module_scope mt nm dds b width n)"
    by (simp add: raf_inv_def module_scope_def)
  then show ?thesis
    using same_frames_inv [OF init_frames(1), of "module_scope mt nm dds b width n"]
    by (simp add: load_def)
qed

lemma desktop_closed_more:
  "rafCounter desktop_closed = 0" "rafPending desktop_closed = []"
  "onWindowResize (registered desktop_closed)" "resizeTimeout desktop_closed = None"
  by (simp_all add: desktop_closed_def load_def init_def module_scope_def final_def Let_def
        DESKTOP_BREAKPOINT_def closed_menu_def el_def)

text \<open>
  C5. In every state the page reaches from loading the module by any sequence of
  events, at most one animation frame callback of the module is pending, and a resize
  handled in that state leaves exactly one pending, the one it has just scheduled: the
  one pending before, if any, has been cancelled.
\<close>

theorem C5_at_most_one_pending_callback:
  "length (rafPending (run es (final (load mt nm dds b width n)))) \<le> 1 \<and>
   rafPending (handleResize (run es (final (load mt nm dds b width n)))) =
     [Suc (rafCounter (run es (final (load mt nm dds b width n))))]"
proof -
  have inv: "raf_inv (run es (final (load mt nm dds b width n)))"
    by (rule run_raf_inv) (rule load_raf_inv)
  then have "length (rafPending (run es (final (load mt nm dds b width n)))) \<le> 1"
    by (auto simp add: raf_inv_def)
  with handleResize_pending [OF inv] show ?thesis by simp
qed

theorem C5_witness:
  "rafPending (run [Resize 800] desktop_closed) = [1] \<and>
   rafPending (handleResize (run [Resize 800] desktop_closed)) = [2]"
proof -
  have "run [Resize 800] desktop_closed = handleResize (desktop_closed\<lparr>innerWidth := 800\<rparr>)"
    by (simp add: run_def Let_def desktop_closed_more)
  then have "rafPending (run [Resize 800] desktop_closed) = [1]"
    "rafCounter (run [Resize 800] desktop_closed) = 1"
    by (simp_all add: handleResize_def requestAnimationFrame_def truthy_def Let_def
          desktop_closed_more)
  then show ?thesis
    using C5_at_most_one_pending_callback [of "[Resize 800]" "Some closed_toggle"
        "Some closed_menu" "[open_dropdown, closed_dropdown]" plain_body 1280 0]
    by (simp add: desktop_closed_def)
qed

section \<open>Dropdowns are exclusive on mobile\<close>

lemma open_count_closeAllDropdowns: "open_count (closeAllDropdowns w) = 0"
proof -
  have "\<not> dropdown_open (closeDropdown d)" for d
    using closeDropdown_closed [of d] by (simp add: dropdown_closed_def)
  then show ?thesis
    by (simp add: open_count_def closeAllDropdowns_def filter_empty_conv)
qed

lemma closeMobileMenu_open_count: "open_count (final (closeMobileMenu w)) \<le> open_count w"
proof (cases "closeMobileMenu w")
  case (Inl err)
  then have "final (closeMobileMenu w) = w \<or>
             (\<exists>mt. final (closeMobileMenu w) = w\<lparr>menuToggle := Some mt\<rparr>)"
    by (auto simp add: closeMobileMenu_def Let_def final_def split: option.splits)
  then show ?thesis by (auto simp add: open_count_def)
next
  case (Inr w')
  then obtain v where "w' = closeAllDropdowns v"
    by (auto simp add: closeMobileMenu_def Let_def split: option.splits)
  with Inr show ?thesis by (simp add: final_def open_count_closeAllDropdowns)
qed

lemma toggleMobileMenu_open_count: "open_count (final (toggleMobileMenu w)) \<le> open_count w"
proof -
  have "navDropdowns (final (toggleMobileMenu w)) = navDropdowns w \<or>
        navDropdowns (final (toggleMobileMenu w)) = map closeDropdown (navDropdowns w)"
    by (simp add: toggleMobileMenu_def closeAllDropdowns_def Let_def final_def
          split: option.split)
  moreover have "open_count (closeAllDropdowns w) = 0"
    by (rule open_count_closeAllDropdowns)
  ultimately show ?thesis
    by (auto simp add: open_count_def closeAllDropdowns_def)
qed

lemma handlers_open_count:
  "open_count (final (navLinkClick w)) \<le> open_count w"
  "open_count (final (handleClickOutside t w)) \<le> open_count w"
  "open_count (final (handleEscapeKey key w)) \<le> open_count w"
  using closeMobileMenu_open_count [of w] navLinkClick_cases [of w]
    handleClickOutside_cases [of t w] handleEscapeKey_cases [of key w]
  by auto

lemma runListener_open_count:
  "open_count (final (f w)) \<le> open_count w \<Longrightarrow> open_count (runListener on f w) \<le> open_count w"
  by (simp add: runListener_def)

text \<open>No function of the module changes the mode, the listeners or which dropdowns have a link.\<close>

lemma same_links_iff:
  "(map (\<lambda>d. dd_toggle d = None) xs = map (\<lambda>d. dd_toggle d = None) ys) =
   (length xs = length ys \<and>
    (\<forall>j<length xs. (dd_toggle (xs ! j) = None) = (dd_toggle (ys ! j) = None)))"
  by (auto simp add: list_eq_iff_nth_eq)

lemma same_shape_refl: "same_shape w w"
  by (simp add: same_shape_def)

lemma same_shape_listeners:
  assumes "same_shape w w'"
  shows "hasToggleListeners i w' = hasToggleListeners i w"
proof -
  from assms have r: "registered w' = registered w"
    and l: "length (navDropdowns w') = length (navDropdowns w)"
    and n: "\<forall>j<length (navDropdowns w').
              (dd_toggle (navDropdowns w' ! j) = None) = (dd_toggle (navDropdowns w ! j) = None)"
    by (simp_all add: same_shape_def same_links_iff)
  from r l n show ?thesis by (auto simp add: hasToggleListeners_def)
qed

lemma closeDropdown_link: "(dd_toggle (closeDropdown d) = None) = (dd_toggle d = None)"
  by (simp add: closeDropdown_def split: option.split)

lemma map_closeDropdown_links:
  "map (\<lambda>d. dd_toggle d = None) (map closeDropdown ds) = map (\<lambda>d. dd_toggle d = None) ds"
  by (simp add: closeDropdown_link)

lemma toggleDropdown_mobile_link:
  assumes "\<not> isDesktop w" and "i < length (navDropdowns w)"
  shows "(dd_toggle (navDropdowns (final (toggleDropdown i w)) ! i) = None) =
         (dd_toggle (navDropdowns w ! i) = None)"
  using assms
  by (simp add: toggleDropdown_def Let_def final_def length_closeOthers nth_closeOthers
        split: option.split)

lemma toggleDropdown_shape: "same_shape w (final (toggleDropdown i w))"
proof (cases "isDesktop w")
  case True
  then show ?thesis by (simp add: toggleDropdown_desktop final_def same_shape_refl)
next
  case False
  have "isDesktop (final (toggleDropdown i w)) = isDesktop w"
    "registered (final (toggleDropdown i w)) = registered w"
    by (simp_all add: toggleDropdown_def Let_def final_def split: option.split)
  moreover have "(dd_toggle (navDropdowns (final (toggleDropdown i w)) ! j) = None) =
                 (dd_toggle (navDropdowns w ! j) = None)"
    if "j < length (navDropdowns w)" for j
  proof (cases "j = i")
    case True
    with that False show ?thesis by (simp add: toggleDropdown_mobile_link)
  next
    case False
    with that \<open>\<not> isDesktop w\<close> show ?thesis
      by (simp add: toggleDropdown_mobile_others closeDropdown_link)
  qed
  ultimately show ?thesis
    using False by (simp add: same_shape_def same_links_iff toggleDropdown_mobile_length)
qed

lemma closeMobileMenu_shape: "same_shape w (final (closeMobileMenu w))"
  by (simp add: same_shape_def closeMobileMenu_def closeAllDropdowns_def Let_def final_def
        closeDropdown_link split: option.split)

lemma toggleMobileMenu_shape: "same_shape w (final (toggleMobileMenu w))"
  by (simp add: same_shape_def toggleMobileMenu_def closeAllDropdowns_def Let_def final_def
        closeDropdown_link split: option.split)

lemma handlers_shape:
  "same_shape w (final (navLinkClick w))"
  "same_shape w (final (handleClickOutside t w))"
  "same_shape w (final (handleEscapeKey key w))"
  using closeMobileMenu_shape [of w] navLinkClick_cases [of w]
    handleClickOutside_cases [of t w] handleEscapeKey_cases [of key w] same_shape_refl [of w]
  by auto

lemma runListener_shape:
  "same_shape w (final (f w)) \<Longrightarrow> same_shape w (runListener on f w)"
  by (simp add: runListener_def same_shape_refl)

lemma clickListener_shape: "same_shape w (clickListener n w)"
  by (cases n)
    (simp_all add: runListener_shape toggleDropdown_shape handlers_shape
       toggleMobileMenu_shape)

text \<open>On mobile no click listener leaves more than one dropdown open, unless more were open before.\<close>

lemma clickListener_open_count:
  assumes "\<not> isDesktop w"
  shows "open_count (clickListener n w) \<le> max 1 (open_count w)"
proof (cases n)
  case (OnDropdownLink j)
  have "open_count (final (toggleDropdown j w)) \<le> 1"
    using assms by (rule toggleDropdown_mobile_open_count)
  then show ?thesis by (simp add: OnDropdownLink runListener_def le_max_iff_disj)
next
  case OnPlainLink
  have "open_count (runListener (onNavLinkClick (registered w)) navLinkClick w) \<le> open_count w"
    by (rule runListener_open_count) (rule handlers_open_count)
  then show ?thesis by (simp add: OnPlainLink)
next
  case OnMenuToggle
  have "open_count (runListener (onMenuToggleClick (registered w)) toggleMobileMenu w)
          \<le> open_count w"
    by (rule runListener_open_count) (rule toggleMobileMenu_open_count)
  then show ?thesis by (simp add: OnMenuToggle)
qed

lemma click_path_keeps_exclusive:
  "\<not> isDesktop w \<Longrightarrow> open_count w \<le> 1 \<Longrightarrow>
   open_count (foldl (\<lambda>w' n. clickListener n w') w ns) \<le> 1"
proof (induction ns arbitrary: w)
  case Nil
  then show ?case by simp
next
  case (Cons n ns)
  have "\<not> isDesktop (clickListener n w)"
    using Cons.prems(1) clickListener_shape [of w n] by (simp add: same_shape_def)
  moreover have "open_count (clickListener n w) \<le> 1"
    using clickListener_open_count [OF Cons.prems(1), of n] Cons.prems(2) by simp
  ultimately have "open_count (foldl (\<lambda>w' n. clickListener n w') (clickListener n w) ns) \<le> 1"
    by (rule Cons.IH)
  then show ?case by simp
qed

lemma click_path_open_count:
  "\<not> isDesktop w \<Longrightarrow> hasToggleListeners i w \<Longrightarrow> OnDropdownLink i \<in> set ns \<Longrightarrow>
   open_count (foldl (\<lambda>w' n. clickListener n w') w ns) \<le> 1"
proof (induction ns arbitrary: w)
  case Nil
  then show ?case by simp
next
  case (Cons n ns)
  have mobile: "\<not> isDesktop (clickListener n w)"
    using Cons.prems(1) clickListener_shape [of w n] by (simp add: same_shape_def)
  show ?case
  proof (cases "n = OnDropdownLink i")
    case True
    then have "clickListener n w = final (toggleDropdown i w)"
      using Cons.prems(2) by (simp add: runListener_def)
    then have "open_count (clickListener n w) \<le> 1"
      using toggleDropdown_mobile_open_count [OF Cons.prems(1), of i] by simp
    with mobile
    have "open_count (foldl (\<lambda>w' n. clickListener n w') (clickListener n w) ns) \<le> 1"
      by (rule click_path_keeps_exclusive)
    then show ?thesis by simp
  next
    case False
    with Cons.prems(3) have "OnDropdownLink i \<in> set ns" by simp
    moreover have "hasToggleListeners i (clickListener n w)"
      using Cons.prems(2) same_shape_listeners [OF clickListener_shape [of w n], of i] by simp
    ultimately show ?thesis using mobile Cons.IH by simp
  qed
qed

text \<open>The same for an Enter or Space keydown, which on mobile runs \<open>toggleDropdown\<close>.\<close>

lemma keydownListener_activate:
  assumes "\<not> isDesktop w" and "key = ''Enter'' \<or> key = '' ''"
  shows "keydownListener key n w = w \<or>
         (\<exists>j. keydownListener key n w = final (toggleDropdown j w))"
  using handleDropdownKeyboard_activate [OF assms]
  by (cases n) (auto simp add: runListener_def)

lemma keydownListener_shape:
  assumes "\<not> isDesktop w" and "key = ''Enter'' \<or> key = '' ''"
  shows "same_shape w (keydownListener key n w)"
  using keydownListener_activate [OF assms, of n] same_shape_refl [of w]
    toggleDropdown_shape [of w]
  by auto

lemma keydownListener_open_count:
  assumes "\<not> isDesktop w" and "key = ''Enter'' \<or> key = '' ''"
  shows "open_count (keydownListener key n w) \<le> max 1 (open_count w)"
  using keydownListener_activate [OF assms, of n]
    toggleDropdown_mobile_open_count [OF assms(1)]
  by (auto simp add: le_max_iff_disj)

lemma keydown_path_keeps_exclusive:
  "\<not> isDesktop w \<Longrightarrow> key = ''Enter'' \<or> key = '' '' \<Longrightarrow> open_count w \<le> 1 \<Longrightarrow>
   open_count (foldl (\<lambda>w' n. keydownListener key n w') w ns) \<le> 1"
proof (induction ns arbitrary: w)
  case Nil
  then show ?case by simp
next
  case (Cons n ns)
  have "\<not> isDesktop (keydownListener key n w)"
    using Cons.prems(1) keydownListener_shape [OF Cons.prems(1,2), of n]
    by (simp add: same_shape_def)
  moreover have "open_count (keydownListener key n w) \<le> 1"
    using keydownListener_open_count [OF Cons.prems(1,2), of n] Cons.prems(3) by simp
  ultimately
  have "open_count (foldl (\<lambda>w' n. keydownListener key n w') (keydownListener key n w) ns) \<le> 1"
    using Cons.prems(2) by (intro Cons.IH)
  then show ?case by simp
qed

lemma keydown_path_open_count:
  "\<not> isDesktop w \<Longrightarrow> key = ''Enter'' \<or> key = '' '' \<Longrightarrow> hasToggleListeners i w \<Longrightarrow>
   OnDropdownLink i \<in> set ns \<Longrightarrow>
   open_count (foldl (\<lambda>w' n. keydownListener key n w') w ns) \<le> 1"
proof (induction ns arbitrary: w)
  case Nil
  then show ?case by simp
next
  case (Cons n ns)
  have shape: "same_shape w (keydownListener key n w)"
    using Cons.prems(1,2) by (rule keydownListener_shape)
  then have mobile: "\<not> isDesktop (keydownListener key n w)"
    using Cons.prems(1) by (simp add: same_shape_def)
  show ?case
  proof (cases "n = OnDropdownLink i")
    case True
    then have "keydownListener key n w = final (toggleDropdown i w)"
      using Cons.prems(3) handleDropdownKeyboard_activate [OF Cons.prems(1,2), of i]
      by (simp add: runListener_def)
    then have "open_count (keydownListener key n w) \<le> 1"
      using toggleDropdown_mobile_open_count [OF Cons.prems(1), of i] by simp
    with mobile Cons.prems(2)
    have "open_count (foldl (\<lambda>w' n. keydownListener key n w') (keydownListener key n w) ns)
            \<le> 1"
      by (rule keydown_path_keeps_exclusive)
    then show ?thesis by simp
  next
    case False
    with Cons.prems(4) have "OnDropdownLink i \<in> set ns" by simp
    moreover have "hasToggleListeners i (keydownListener key n w)"
      using Cons.prems(3) same_shape_listeners [OF shape, of i] by simp
    ultimately show ?thesis using mobile Cons.prems(2) Cons.IH by simp
  qed
qed

text \<open>
  C9. On mobile, after a click or an Enter or Space keydown on the toggle link of
  dropdown \<open>i\<close>, at most one dropdown has \<^verbatim>\<open>is-open\<close>. The page has as many
  dropdowns as before, and every dropdown but \<open>i\<close> is the one it was, closed: without
  \<^verbatim>\<open>is-open\<close>, and with its own toggle link, if it has one, reading \<^verbatim>\<open>false\<close>.
  The keydown does what the click does. At most one dropdown is open after the whole
  dispatch of the event as well, whatever other listeners are on its path and the
  listeners on the document included.
\<close>

theorem C9_mobile_dropdowns_exclusive:
  assumes "\<not> isDesktop w" and "i < length (navDropdowns w)"
    and "key = ''Enter'' \<or> key = '' ''"
  shows "open_count (final (toggleDropdown i w)) \<le> 1 \<and>
         open_count (final (handleDropdownKeyboard (Some i) key w)) \<le> 1 \<and>
         handleDropdownKeyboard (Some i) key w = toggleDropdown i w \<and>
         length (navDropdowns (final (toggleDropdown i w))) = length (navDropdowns w) \<and>
         (\<forall>j. j < length (navDropdowns w) \<and> j \<noteq> i \<longrightarrow>
              dropdown_closed (navDropdowns (final (toggleDropdown i w)) ! j) \<and>
              closed_from (navDropdowns w ! j)
                (navDropdowns (final (toggleDropdown i w)) ! j)) \<and>
         (OnDropdownLink i \<in> set (onPath t) \<and> hasToggleListeners i w \<longrightarrow>
              open_count (step (Click t) w) \<le> 1 \<and>
              open_count (step (Keydown t key) w) \<le> 1)"
proof -
  have others: "dropdown_closed (navDropdowns (final (toggleDropdown i w)) ! j) \<and>
                closed_from (navDropdowns w ! j)
                  (navDropdowns (final (toggleDropdown i w)) ! j)"
    if "j < length (navDropdowns w)" "j \<noteq> i" for j
    using that assms(1)
    by (simp add: toggleDropdown_mobile_others closeDropdown_closed closeDropdown_closed_from)
  have click: "open_count (final (toggleDropdown i w)) \<le> 1"
    using assms(1) by (rule toggleDropdown_mobile_open_count)
  have same: "handleDropdownKeyboard (Some i) key w = toggleDropdown i w"
    using assms(1,3) by (rule handleDropdownKeyboard_activate)
  have len: "length (navDropdowns (final (toggleDropdown i w))) = length (navDropdowns w)"
    using assms(1) by (rule toggleDropdown_mobile_length)
  have events: "open_count (step (Click t) w) \<le> 1 \<and> open_count (step (Keydown t key) w) \<le> 1"
    if t: "OnDropdownLink i \<in> set (onPath t)" "hasToggleListeners i w"
  proof -
    let ?w0 = "w\<lparr>defaultPrevented := False\<rparr>"
    let ?c = "foldl (\<lambda>w' n. clickListener n w') ?w0 (onPath t)"
    let ?k = "foldl (\<lambda>w' n. keydownListener key n w') ?w0 (onPath t)"
    have mobile: "\<not> isDesktop ?w0" using assms(1) by simp
    have listeners: "hasToggleListeners i ?w0"
      using t(2) by (simp add: hasToggleListeners_def)
    have "open_count ?c \<le> 1"
      using mobile listeners t(1) by (rule click_path_open_count)
    moreover have "open_count (runListener (onDocumentClick (registered ?c))
                     (handleClickOutside t) ?c) \<le> open_count ?c"
      by (rule runListener_open_count) (rule handlers_open_count)
    moreover have "open_count ?k \<le> 1"
      using mobile assms(3) listeners t(1) by (rule keydown_path_open_count)
    moreover have "open_count (runListener (onDocumentKeydown (registered ?k))
                     (handleEscapeKey key) ?k) \<le> open_count ?k"
      by (rule runListener_open_count) (rule handlers_open_count)
    ultimately show ?thesis by (simp add: Let_def)
  qed
  from others click same len events show ?thesis by simp
qed

theorem C9_witness:
  "open_count mobile_closed = 1 \<and>
   open_count (final (toggleDropdown 1 mobile_closed)) \<le> 1 \<and>
   open_count (final (handleDropdownKeyboard (Some 1) ''Enter'' mobile_closed)) \<le> 1 \<and>
   length (navDropdowns (final (toggleDropdown 1 mobile_closed))) = 2 \<and>
   dropdown_closed (navDropdowns (final (toggleDropdown 1 mobile_closed)) ! 0) \<and>
   closed_from open_dropdown (navDropdowns (final (toggleDropdown 1 mobile_closed)) ! 0) \<and>
   open_count (step (Click on_second_dropdown_toggle) mobile_closed) \<le> 1 \<and>
   open_count (step (Keydown on_second_dropdown_toggle ''Enter'') mobile_closed) \<le> 1"
proof -
  have "open_count mobile_closed = 1"
    by (simp add: open_count_def mobile_closed_facts dropdown_open_def closed_dropdown_def
          open_dropdown_def el_def classList_contains_def)
  moreover have "(1::nat) < length (navDropdowns mobile_closed)"
    by (simp add: mobile_closed_facts)
  moreover have "hasToggleListeners 1 mobile_closed"
    by (simp add: hasToggleListeners_def mobile_closed_facts mobile_closed_listeners
          closed_dropdown_def)
  moreover have "OnDropdownLink 1 \<in> set (onPath on_second_dropdown_toggle)"
    by (simp add: on_second_dropdown_toggle_def)
  ultimately show ?thesis
    using C9_mobile_dropdowns_exclusive
      [of mobile_closed 1 "''Enter''" on_second_dropdown_toggle]
    by (auto simp add: mobile_closed_facts)
qed

section \<open>Missing elements\<close>

text \<open>
  C1 does not hold of the code. On a page with a menu toggle and no \<^verbatim>\<open>.nav-menu\<close>
  element, \<open>init\<close> throws at line 212, after it has added the click listener of the
  toggle and before it adds the listeners of the document and the window; the click
  listener then sets \<^verbatim>\<open>aria-expanded\<close> and throws at line 36, before it reaches the
  body. On a page with a \<^verbatim>\<open>.nav-menu\<close> element and no menu toggle, \<open>init\<close> returns,
  and the click listener of the document throws at line 106 and the Escape listener at
  line 49, so an open menu stays open.
\<close>

theorem C1_missing_elements_throw:
  "thrown (init page_without_menu) = Some TypeError \<and>
   onMenuToggleClick (registered (final (init page_without_menu))) \<and>
   \<not> onDocumentClick (registered (final (init page_without_menu))) \<and>
   \<not> onWindowResize (registered (final (init page_without_menu))) \<and>
   \<not> onDocumentKeydown (registered (final (init page_without_menu))) \<and>
   thrown (toggleMobileMenu (final (init page_without_menu))) = Some TypeError \<and>
   toggle_expanded (final (toggleMobileMenu (final (init page_without_menu)))) = Some ''true'' \<and>
   \<not> body_open (final (toggleMobileMenu (final (init page_without_menu)))) \<and>
   thrown (init page_without_toggle) = None \<and>
   thrown (handleClickOutside nowhere (final (init page_without_toggle))) = Some TypeError \<and>
   thrown (handleEscapeKey ''Escape'' (final (init page_without_toggle))) = Some TypeError \<and>
   menu_active (final (handleEscapeKey ''Escape'' (final (init page_without_toggle))))"
  by (simp add: page_without_menu_def page_without_toggle_def nowhere_def inMenuToggle_def
        example_defs
        thrown_def Let_def toggleMobileMenu_def handleClickOutside_def handleEscapeKey_def
        closeMobileMenu_def toggle_expanded_def menu_active_def body_open_def element_defs)

end
